theory Spec2Isabelle
  imports Main
begin

section \<open>Data model of the message step processor\<close>

text \<open>
  The development embeds \<^verbatim>\<open>MessageStepProcessor.process\<close> (the worker of the
  \<^verbatim>\<open>{message.step}\<close> queue). Entities are records holding the fields the
  processor reads; identifiers are strings as in the source. A clock reading
  \<^verbatim>\<open>new Date()\<close> is an \<open>int\<close>: milliseconds since the epoch.
\<close>

datatype StepType =
    START | EXPERIMENT | LOOP | EXIT | MULTISPLIT | MESSAGE
  | TIME_WINDOW | TIME_DELAY | WAIT_UNTIL_BRANCH
  | AB_TEST | RANDOM_COHORT_BRANCH | TRACKER | ATTRIBUTE_BRANCH

datatype TemplateType = EMAIL | SLACK | SMS | FIREBASE | WEBHOOK | PUSH

datatype MessageSendType =
    SEND | QUIET_REQUEUE | QUIET_ABORT | LIMIT_REQUEUE | LIMIT_HOLD | MOCK_SEND

datatype JourneySettingsQuietFallbackBehavior = NextAvailableTime | Abort

text \<open>A time of day \<^verbatim>\<open>"HH:MM"\<close>, kept as the pair the source parses it into
  (\<^verbatim>\<open>split(':')\<close>, then \<^verbatim>\<open>parseInt\<close> of both parts).\<close>

type_synonym hhmm = "nat \<times> nat"

record QuietHours =
  enabled :: bool
  startTime :: hhmm
  endTime :: hhmm
  fallbackBehavior :: "JourneySettingsQuietFallbackBehavior option"

text \<open>Modelled from the spec: the rate-limit configuration \<^verbatim>\<open>{enabled, max}\<close> of a
  journey; its declaration (the journey settings interface) is not among the sources.\<close>

record RateLimit =
  limitEnabled :: bool
  limitMax :: nat

record JourneySettings =
  quietHours :: "QuietHours option"
  customersMessagedLimit :: RateLimit
  perMinuteLimit :: RateLimit

record Journey =
  journeyId :: string
  journeySettings :: "JourneySettings option"

record Workspace =
  workspaceId :: string
  timezoneUTCOffset :: int
  emailProvider :: string
  freeEmailsCount :: int

text \<open>\<open>workspace\<close> is \<^verbatim>\<open>owner.teams?.[0]?.organization?.workspaces?.[0]\<close>, which
  may be undefined.\<close>

record Account =
  accountId :: string
  email :: string
  workspace :: "Workspace option"

record Template =
  templateId :: string
  templateType :: TemplateType
  webhookData :: "string option"

text \<open>The fields \<open>template\<close>, \<open>destination\<close>, \<open>selectedPlatform\<close> and
  \<open>humanReadableName\<close> are those of \<^verbatim>\<open>step.metadata\<close>.\<close>

record Step =
  stepId :: string
  stepType :: StepType
  template :: string
  destination :: string
  selectedPlatform :: string
  humanReadableName :: string

record Customer =
  customerId :: string

record JourneyLocation =
  messageSent :: bool

record Job =
  step :: Step
  owner :: Account
  journey :: Journey
  customer :: Customer
  location :: JourneyLocation
  session :: string
  event :: "string option"
  branch :: "nat option"

section \<open>Collaborators, effects and faults\<close>

datatype Queue =
    StartQueue | ExperimentQueue | JumpToQueue | ExitQueue | MultisplitQueue
  | MessageQueue | TimeWindowQueue | TimeDelayQueue | WaitUntilQueue

datatype Channel = EmailChannel | AndroidChannel | IosChannel | SmsChannel

text \<open>
  Every call the processor makes on a collaborator is one entry of a log, in the order
  of the calls:
  \<^item> \<open>CheckCustomersMessaged\<close>, \<open>CheckMinute\<close>: \<^verbatim>\<open>rateLimitByCustomersMessaged\<close>,
    \<^verbatim>\<open>rateLimitByMinute\<close>;
  \<^item> \<open>SenderProcess c\<close>: \<^verbatim>\<open>sender.process\<close> on channel \<open>c\<close>; \<open>DeliveryStatus c\<close>:
    \<^verbatim>\<open>insertMessageStatusToClickhouse\<close> of what the sender returned;
  \<^item> \<open>WebhookCall s c\<close>: \<^verbatim>\<open>webhooksQueue.add('whapicall', ...)\<close> for step \<open>s\<close>, customer \<open>c\<close>;
  \<^item> \<open>SaveWorkspace\<close>: \<^verbatim>\<open>owner.save()\<close> and \<^verbatim>\<open>workspace.save()\<close>;
  \<^item> \<open>TrackerEvent e s c\<close>: \<^verbatim>\<open>insertMessageStatusToClickhouse\<close> of the synthetic event
    \<open>e\<close> for step \<open>s\<close> and customer \<open>c\<close>;
  \<^item> \<open>HttpGet u ok\<close>, \<open>HttpsGet u ok\<close>: the request of the diagnostic ping,
    \<^verbatim>\<open>http.get(u)\<close> or \<^verbatim>\<open>https.get(u)\<close>, where \<open>ok\<close> says whether the request, once
    made, succeeds; \<open>LogError\<close>: \<^verbatim>\<open>this.error\<close>;
  \<^item> \<open>MinuteIncrement\<close>: \<^verbatim>\<open>rateLimitByMinuteIncrement\<close>;
  \<^item> \<open>Unlock s\<close>: \<^verbatim>\<open>journeyLocationsService.unlock(location, s)\<close>;
  \<^item> \<open>RequeueMessage s c t\<close>: \<^verbatim>\<open>stepsService.requeueMessage\<close> of step \<open>s\<close> for
    customer \<open>c\<close> at \<open>t\<close>;
  \<^item> \<open>QueueAdd q ty j\<close>: \<^verbatim>\<open>q.add(ty, j)\<close>.
\<close>

datatype Effect =
    CheckCustomersMessaged
  | CheckMinute
  | SenderProcess Channel
  | DeliveryStatus Channel
  | WebhookCall string string
  | SaveWorkspace
  | TrackerEvent string string string
  | HttpGet string bool
  | HttpsGet string bool
  | LogError
  | MinuteIncrement
  | Unlock string
  | RequeueMessage string string "int option"
  | QueueAdd Queue StepType Job

datatype Fault = TypeError | PaymentRequired | SenderFault | NotImplemented

datatype Status = Returned | Threw Fault

text \<open>
  The shared state outside the job: the two rate-limit counters of the job's journey and
  the log of collaborator calls. Modelled from the spec: the counters (a per-minute send
  counter and a count of distinct customers messaged), kept by the journeys service,
  which is not among the sources.
\<close>

record World =
  minuteSends :: nat
  customersMessaged :: nat
  effects :: "Effect list"

text \<open>
  What the run reads from outside the job: two clock readings (\<open>nowQuiet\<close> in the
  quiet-hours block, \<open>nowLimit\<close> in the per-minute block), the time zone of the
  server, the template and step caches, the environment variables, and the outcome of
  calls that can throw.
  \<open>localTZA t isUTC\<close> is the offset of the server's local time from UTC in
  milliseconds, as ECMAScript defines it: at the UTC instant \<open>t\<close> when \<open>isUTC\<close>, and
  for the local time value \<open>t\<close> otherwise.
  \<open>urlProtocol u\<close> is \<^verbatim>\<open>new URL(u).protocol\<close>, or \<open>None\<close> where the constructor
  throws. \<open>requestFails\<close> says that the diagnostic request, once made, fails:
  \<^verbatim>\<open>http.get\<close> returns the request object at once, and a failure is an \<^verbatim>\<open>'error'\<close> event
  of that object, emitted later and not an exception of the call. \<open>senderThrows c\<close> says
  that sending on channel \<open>c\<close> throws.
\<close>

record Env =
  nowQuiet :: int
  nowLimit :: int
  localTZA :: "int \<Rightarrow> bool \<Rightarrow> int"
  templates :: "string \<Rightarrow> Template option"
  steps :: "string \<Rightarrow> Step option"
  MOCK_MESSAGE_SEND :: "string option"
  MOCK_MESSAGE_SEND_URL :: "string option"
  urlProtocol :: "string \<Rightarrow> string option"
  requestFails :: bool
  senderThrows :: "Channel \<Rightarrow> bool"

definition logEffect :: "Effect \<Rightarrow> World \<Rightarrow> World" where
  "logEffect e w = w\<lparr>effects := effects w @ [e]\<rparr>"

section \<open>Time\<close>

definition msPerMinute :: int where
  "msPerMinute = 60000"

definition msPerHour :: int where
  "msPerHour = 3600000"

definition msPerDay :: int where
  "msPerDay = 86400000"

text \<open>
  \<^verbatim>\<open>Intl.DateTimeFormat(undefined, {hour: '2-digit', minute: '2-digit', hourCycle: 'h24',
  timeZone: 'UTC'}).format(now)\<close>: the hour and minute of \<open>now\<close> in UTC. The hour cycle
  \<^verbatim>\<open>h24\<close> counts the hours 1 to 24, so the hour after midnight reads 24.
\<close>

definition formatUTC :: "int \<Rightarrow> hhmm" where
  "formatUTC t =
     (let h = nat ((t div msPerHour) mod 24); m = nat ((t div msPerMinute) mod 60)
      in (if h = 0 then 24 else h, m))"

text \<open>
  \<^verbatim>\<open>d.setUTCHours(h, m, 0, 0)\<close>: the instant \<open>h:m:00.000\<close> on the UTC date of \<open>d\<close>.
\<close>

definition setUTCHours :: "int \<Rightarrow> nat \<Rightarrow> nat \<Rightarrow> int" where
  "setUTCHours d h m = d - d mod msPerDay + int h * msPerHour + int m * msPerMinute"

text \<open>
  \<^verbatim>\<open>d.setDate(d.getDate() + 1)\<close> and \<^verbatim>\<open>d.setMinutes(d.getMinutes() + 1)\<close> work on the
  local time of the server: the instant is taken to local time, the day of the month
  (the minute) of that local time is advanced by one, and the result is taken back to
  UTC. \<open>localTime\<close> and \<open>utcOfLocal\<close> are ECMAScript's \<^verbatim>\<open>LocalTime\<close> and \<^verbatim>\<open>UTC\<close>.
\<close>

definition localTime :: "Env \<Rightarrow> int \<Rightarrow> int" where
  "localTime env t = t + localTZA env t True"

definition utcOfLocal :: "Env \<Rightarrow> int \<Rightarrow> int" where
  "utcOfLocal env t = t - localTZA env t False"

definition addOneDay :: "Env \<Rightarrow> int \<Rightarrow> int" where
  "addOneDay env d = utcOfLocal env (localTime env d + msPerDay)"

definition addOneMinute :: "Env \<Rightarrow> int \<Rightarrow> int" where
  "addOneMinute env d = utcOfLocal env (localTime env d + msPerMinute)"

subsection \<open>The timing helpers\<close>

text \<open>
  Modelled from the spec: \<^verbatim>\<open>convertTimeToUTC\<close> and \<^verbatim>\<open>isWithinInterval\<close> of
  \<^verbatim>\<open>@/common/helper/timing\<close>, which is not among the sources. The spec: the evaluator
  ``converts the journey's configured local start/end time to UTC using the stored
  offset, and compares against current UTC time-of-day (minute resolution) to determine
  containment, correctly handling wraparound windows''; the window is
  \<^verbatim>\<open>[startTime, endTime)\<close>. The offset is in minutes, local time being UTC plus the
  offset. A reading is compared as a minute of the day, so the reading 24:MM of the
  formatter is the minute MM.
\<close>

definition minuteOfDay :: "hhmm \<Rightarrow> nat" where
  "minuteOfDay t = (fst t * 60 + snd t) mod 1440"

definition convertTimeToUTC :: "hhmm \<Rightarrow> int \<Rightarrow> hhmm" where
  "convertTimeToUTC t offset =
     (let u = nat ((int (fst t * 60 + snd t) - offset) mod 1440) in (u div 60, u mod 60))"

definition isWithinInterval :: "hhmm \<Rightarrow> hhmm \<Rightarrow> hhmm \<Rightarrow> bool" where
  "isWithinInterval start end' time =
     (let s = minuteOfDay start; e = minuteOfDay end'; t = minuteOfDay time
      in if s \<le> e then s \<le> t \<and> t < e else s \<le> t \<or> t < e)"

section \<open>The rate limiter\<close>

text \<open>
  Modelled from the spec: the operations of the journeys service the processor calls
  (\<^verbatim>\<open>rateLimitByCustomersMessagedEnabled\<close>, \<^verbatim>\<open>rateLimitByCustomersMessaged\<close>,
  \<^verbatim>\<open>rateLimitByMinuteEnabled\<close>, \<^verbatim>\<open>rateLimitByMinute\<close>,
  \<^verbatim>\<open>rateLimitByMinuteIncrement\<close>); the service is not among the sources. The spec:
  the distinct-customers check trips ``if enabled and the journey has already reached
  its configured cap of distinct customers messaged'', the per-minute check ``if enabled
  and the current minute's send count has reached its cap''; ``both checks are
  look-then-decide''.
\<close>

definition rateLimitByCustomersMessagedEnabled :: "Journey \<Rightarrow> bool" where
  "rateLimitByCustomersMessagedEnabled j =
     (case journeySettings j of None \<Rightarrow> False
      | Some js \<Rightarrow> limitEnabled (customersMessagedLimit js))"

definition rateLimitByCustomersMessaged :: "World \<Rightarrow> Journey \<Rightarrow> bool" where
  "rateLimitByCustomersMessaged w j =
     (case journeySettings j of None \<Rightarrow> False
      | Some js \<Rightarrow> limitMax (customersMessagedLimit js) \<le> customersMessaged w)"

definition rateLimitByMinuteEnabled :: "Journey \<Rightarrow> bool" where
  "rateLimitByMinuteEnabled j =
     (case journeySettings j of None \<Rightarrow> False
      | Some js \<Rightarrow> limitEnabled (perMinuteLimit js))"

definition rateLimitByMinute :: "World \<Rightarrow> Journey \<Rightarrow> bool" where
  "rateLimitByMinute w j =
     (case journeySettings j of None \<Rightarrow> False
      | Some js \<Rightarrow> limitMax (perMinuteLimit js) \<le> minuteSends w)"

definition rateLimitByMinuteIncrement :: "World \<Rightarrow> World" where
  "rateLimitByMinuteIncrement w =
     logEffect MinuteIncrement (w\<lparr>minuteSends := minuteSends w + 1\<rparr>)"

text \<open>
  Modelled from the spec: how the count of distinct customers messaged grows. The
  processor has no call of its own for it: after a send it marks the location
  \<^verbatim>\<open>messageSent\<close> (under the comment ``update rate limit stuff'') and hands the location
  on; the count is kept from that mark by the services that are not among the sources.
  The spec: on a send the engine is to ``increment per-minute and distinct-customer
  counters, mark \<^verbatim>\<open>messageSent=true\<close>'', the counter being over ``distinct customers
  messaged''. So marking a location that is not yet marked credits one customer, and
  marking one that is already marked credits none.
\<close>

definition creditCustomerMessaged :: "JourneyLocation \<Rightarrow> World \<Rightarrow> World" where
  "creditCustomerMessaged loc w =
     (if messageSent loc then w else w\<lparr>customersMessaged := customersMessaged w + 1\<rparr>)"

section \<open>The send gate\<close>

text \<open>
  The quiet-hours block of \<^verbatim>\<open>process\<close>. It yields the send type and
  \<^verbatim>\<open>requeueTime\<close> (\<open>None\<close> while the variable is unassigned). Reading
  \<^verbatim>\<open>workspace.timezoneUTCOffset\<close> of an undefined workspace throws.
\<close>

definition quietHoursCheck :: "Env \<Rightarrow> Job \<Rightarrow> Fault + (MessageSendType \<times> int option)" where
  "quietHoursCheck env job =
     (case journeySettings (journey job) of
        None \<Rightarrow> Inr (SEND, None)
      | Some js \<Rightarrow>
          (case quietHours js of
             None \<Rightarrow> Inr (SEND, None)
           | Some qh \<Rightarrow>
               if \<not> enabled qh then Inr (SEND, None)
               else
                 (case workspace (owner job) of
                    None \<Rightarrow> Inl TypeError
                  | Some ws \<Rightarrow>
                      (let now = nowQuiet env;
                           utcNowString = formatUTC now;
                           utcStartTime = convertTimeToUTC (startTime qh) (timezoneUTCOffset ws);
                           utcEndTime = convertTimeToUTC (endTime qh) (timezoneUTCOffset ws)
                       in if isWithinInterval utcStartTime utcEndTime utcNowString
                          then
                            (let messageSendType =
                                   (case fallbackBehavior qh of
                                      Some NextAvailableTime \<Rightarrow> QUIET_REQUEUE
                                    | Some Abort \<Rightarrow> QUIET_ABORT
                                    | None \<Rightarrow> QUIET_REQUEUE);
                                 requeueTime = setUTCHours now (fst utcEndTime) (snd utcEndTime)
                             in Inr (messageSendType,
                                     Some (if requeueTime < now then addOneDay env requeueTime
                                           else requeueTime)))
                          else Inr (SEND, None)))))"

text \<open>1. Rate limiting by unique customers messaged.\<close>

definition customersMessagedCheck ::
  "Job \<Rightarrow> MessageSendType \<Rightarrow> World \<Rightarrow> MessageSendType \<times> World" where
  "customersMessagedCheck job messageSendType w =
     (if messageSendType = SEND then
        (if rateLimitByCustomersMessagedEnabled (journey job) then
           (if rateLimitByCustomersMessaged w (journey job)
            then (LIMIT_HOLD, logEffect CheckCustomersMessaged w)
            else (SEND, logEffect CheckCustomersMessaged w))
         else (SEND, w))
      else (messageSendType, w))"

text \<open>2. Rate limiting by messages sent per minute.\<close>

definition minuteCheck ::
  "Env \<Rightarrow> Job \<Rightarrow> MessageSendType \<times> int option \<Rightarrow> World
     \<Rightarrow> (MessageSendType \<times> int option) \<times> World" where
  "minuteCheck env job d w =
     (if fst d = SEND then
        (if rateLimitByMinuteEnabled (journey job) then
           (if rateLimitByMinute w (journey job)
            then ((LIMIT_REQUEUE, Some (addOneMinute env (nowLimit env))),
                  logEffect CheckMinute w)
            else (d, logEffect CheckMinute w))
         else (d, w))
      else (d, w))"

text \<open>3. Mocking, decided after the template is fetched.\<close>

definition mockCheck :: "Env \<Rightarrow> Template option \<Rightarrow> MessageSendType \<Rightarrow> MessageSendType" where
  "mockCheck env tpl messageSendType =
     (if messageSendType = SEND \<and> MOCK_MESSAGE_SEND env = Some ''true''
         \<and> (case tpl of None \<Rightarrow> False | Some t \<Rightarrow> webhookData t = None)
      then MOCK_SEND else messageSendType)"

text \<open>
  The gate: lines 236 to 346 of the processor. The result is the send type,
  \<^verbatim>\<open>requeueTime\<close>, the template fetched and the world after the checks.
\<close>

definition sendGate ::
  "Env \<Rightarrow> Job \<Rightarrow> World
     \<Rightarrow> Fault + (MessageSendType \<times> int option \<times> Template option \<times> World)" where
  "sendGate env job w =
     (case quietHoursCheck env job of
        Inl f \<Rightarrow> Inl f
      | Inr (t0, r0) \<Rightarrow>
          (case customersMessagedCheck job t0 w of
             (t1, w1) \<Rightarrow>
               (case minuteCheck env job (t1, r0) w1 of
                  ((t2, r2), w2) \<Rightarrow>
                    (let tpl = templates env (template (step job))
                     in Inr (mockCheck env tpl t2, r2, tpl, w2)))))"

section \<open>Handling the decision\<close>

text \<open>
  What the \<^verbatim>\<open>if/else if\<close> chain over the send type leaves: \<open>Continue\<close> falls through
  to the resolution of the next step, \<open>Stop\<close> is the early \<^verbatim>\<open>return\<close>, \<open>Fail\<close> an
  exception leaving \<^verbatim>\<open>process\<close>. Each carries the job and the world at that point.
\<close>

datatype Outcome = Continue Job World | Stop Job World | Fail Fault Job World

text \<open>\<^verbatim>\<open>insertMessageStatusToClickhouse(await sender.process(...))\<close>.\<close>

definition senderProcess :: "Env \<Rightarrow> Channel \<Rightarrow> Job \<Rightarrow> World \<Rightarrow> Outcome" where
  "senderProcess env c job w =
     (if senderThrows env c then Fail SenderFault job w
      else Continue job (logEffect (DeliveryStatus c) (logEffect (SenderProcess c) w)))"

text \<open>
  A push send reads \<^verbatim>\<open>job.data.journey.journeySettings.quietHours.enabled\<close> while it
  builds the argument of the sender, which throws where the settings or the quiet hours
  are undefined. The push platforms of the workspace and the push object of the
  template are taken as present.
\<close>

definition sendPush :: "Env \<Rightarrow> Channel \<Rightarrow> Job \<Rightarrow> World \<Rightarrow> Outcome" where
  "sendPush env c job w =
     (case journeySettings (journey job) of
        None \<Rightarrow> Fail TypeError job w
      | Some js \<Rightarrow>
          (case quietHours js of
             None \<Rightarrow> Fail TypeError job w
           | Some qh \<Rightarrow> senderProcess env c job w))"

definition andThen :: "Outcome \<Rightarrow> (Job \<Rightarrow> World \<Rightarrow> Outcome) \<Rightarrow> Outcome" where
  "andThen r f = (case r of Continue j w \<Rightarrow> f j w | Stop j w \<Rightarrow> Stop j w | Fail e j w \<Rightarrow> Fail e j w)"

text \<open>The \<^verbatim>\<open>switch (template.type)\<close> of the \<^verbatim>\<open>SEND\<close> branch.\<close>

definition sendByTemplate :: "Env \<Rightarrow> Workspace \<Rightarrow> Template \<Rightarrow> Job \<Rightarrow> World \<Rightarrow> Outcome" where
  "sendByTemplate env ws t job w =
     (case templateType t of
        EMAIL \<Rightarrow>
          (if emailProvider ws = ''free3'' then
             (if freeEmailsCount ws = 0 then Fail PaymentRequired job w
              else
                andThen
                  (senderProcess env EmailChannel
                     (job\<lparr>owner := (owner job)
                        \<lparr>workspace := Some (ws\<lparr>freeEmailsCount := freeEmailsCount ws - 1\<rparr>)\<rparr>\<rparr>) w)
                  (\<lambda>j w'. Continue j (logEffect SaveWorkspace w')))
           else senderProcess env EmailChannel job w)
      | PUSH \<Rightarrow>
          (if selectedPlatform (step job) = ''All'' then
             andThen (sendPush env AndroidChannel job w) (sendPush env IosChannel)
           else if selectedPlatform (step job) = ''iOS'' then sendPush env IosChannel job w
           else if selectedPlatform (step job) = ''Android'' then sendPush env AndroidChannel job w
           else Continue job w)
      | SMS \<Rightarrow> senderProcess env SmsChannel job w
      | WEBHOOK \<Rightarrow>
          (case webhookData t of
             Some d \<Rightarrow>
               Continue job (logEffect (WebhookCall (stepId (step job)) (customerId (customer job))) w)
           | None \<Rightarrow> Continue job w)
      | SLACK \<Rightarrow> Continue job w
      | FIREBASE \<Rightarrow> Continue job w)"

text \<open>After a send or a mock send: ``update rate limit stuff''. The location is marked
  \<^verbatim>\<open>messageSent\<close>, then the per-minute counter is incremented.\<close>

definition afterSend :: "Job \<Rightarrow> World \<Rightarrow> Outcome" where
  "afterSend job w =
     Continue (job\<lparr>location := (location job)\<lparr>messageSent := True\<rparr>\<rparr>)
       (rateLimitByMinuteIncrement (creditCustomerMessaged (location job) w))"

text \<open>
  The \<^verbatim>\<open>SEND\<close> branch. Destructuring an undefined workspace throws, and so does
  \<^verbatim>\<open>template.type\<close> of a template that was not found.
\<close>

definition realSend :: "Env \<Rightarrow> Template option \<Rightarrow> Job \<Rightarrow> World \<Rightarrow> Outcome" where
  "realSend env tpl job w =
     (case workspace (owner job) of
        None \<Rightarrow> Fail TypeError job w
      | Some ws \<Rightarrow>
          (case tpl of
             None \<Rightarrow> Fail TypeError job w
           | Some t \<Rightarrow> andThen (sendByTemplate env ws t job w) afterSend))"

text \<open>The synthetic tracker event; \<^verbatim>\<open>workspace.id\<close> of an undefined workspace throws.\<close>

definition trackerEvent :: "string \<Rightarrow> Job \<Rightarrow> World \<Rightarrow> Outcome" where
  "trackerEvent ev job w =
     (case workspace (owner job) of
        None \<Rightarrow> Fail TypeError job w
      | Some ws \<Rightarrow>
          Continue job
            (logEffect (TrackerEvent ev (stepId (step job)) (customerId (customer job))) w))"

text \<open>
  The optional diagnostic ping of a mock send, inside its \<^verbatim>\<open>try/catch\<close>. What can throw
  there is the construction of the URL; \<^verbatim>\<open>http.get\<close> and \<^verbatim>\<open>https.get\<close> start the
  request and return it (awaiting the returned object does not wait for the response),
  so a request that fails does not reach the \<^verbatim>\<open>catch\<close>.
\<close>

definition mockPing :: "Env \<Rightarrow> World \<Rightarrow> World" where
  "mockPing env w =
     (case MOCK_MESSAGE_SEND_URL env of
        None \<Rightarrow> w
      | Some u \<Rightarrow>
          if u = [] then w
          else
            (case urlProtocol env u of
               None \<Rightarrow> logEffect LogError w
             | Some p \<Rightarrow>
                 if p = ''http:'' then logEffect (HttpGet u (\<not> requestFails env)) w
                 else if p = ''https:'' then logEffect (HttpsGet u (\<not> requestFails env)) w
                 else w))"

definition mockSend :: "Env \<Rightarrow> Job \<Rightarrow> World \<Rightarrow> Outcome" where
  "mockSend env job w = andThen (trackerEvent ''sent'' job (mockPing env w)) afterSend"

definition holdAtCurrent :: "Job \<Rightarrow> World \<Rightarrow> Outcome" where
  "holdAtCurrent job w = Stop job (logEffect (Unlock (stepId (step job))) w)"

definition requeue :: "int option \<Rightarrow> Job \<Rightarrow> World \<Rightarrow> Outcome" where
  "requeue requeueTime job w =
     Stop job
       (logEffect (Unlock (stepId (step job)))
          (logEffect (RequeueMessage (stepId (step job)) (customerId (customer job)) requeueTime) w))"

definition handleSendType ::
  "Env \<Rightarrow> MessageSendType \<Rightarrow> int option \<Rightarrow> Template option \<Rightarrow> Job \<Rightarrow> World \<Rightarrow> Outcome" where
  "handleSendType env messageSendType requeueTime tpl job w =
     (case messageSendType of
        SEND \<Rightarrow> realSend env tpl job w
      | QUIET_ABORT \<Rightarrow> trackerEvent ''aborted'' job w
      | MOCK_SEND \<Rightarrow> mockSend env job w
      | LIMIT_HOLD \<Rightarrow> holdAtCurrent job w
      | QUIET_REQUEUE \<Rightarrow> requeue requeueTime job w
      | LIMIT_REQUEUE \<Rightarrow> requeue requeueTime job w)"

section \<open>Resolving the next step\<close>

definition processorMap :: "StepType \<Rightarrow> Job \<Rightarrow> World \<Rightarrow> Fault + World" where
  "processorMap ty j w =
     (case ty of
        START \<Rightarrow> Inr (logEffect (QueueAdd StartQueue ty j) w)
      | EXPERIMENT \<Rightarrow> Inr (logEffect (QueueAdd ExperimentQueue ty j) w)
      | LOOP \<Rightarrow> Inr (logEffect (QueueAdd JumpToQueue ty j) w)
      | EXIT \<Rightarrow> Inr (logEffect (QueueAdd ExitQueue ty j) w)
      | MULTISPLIT \<Rightarrow> Inr (logEffect (QueueAdd MultisplitQueue ty j) w)
      | MESSAGE \<Rightarrow> Inr (logEffect (QueueAdd MessageQueue ty j) w)
      | TIME_WINDOW \<Rightarrow> Inr (logEffect (QueueAdd TimeWindowQueue ty j) w)
      | TIME_DELAY \<Rightarrow> Inr (logEffect (QueueAdd TimeDelayQueue ty j) w)
      | WAIT_UNTIL_BRANCH \<Rightarrow> Inr (logEffect (QueueAdd WaitUntilQueue ty j) w)
      | AB_TEST \<Rightarrow> Inl NotImplemented
      | RANDOM_COHORT_BRANCH \<Rightarrow> Inl NotImplemented
      | TRACKER \<Rightarrow> Inl NotImplemented
      | ATTRIBUTE_BRANCH \<Rightarrow> Inl NotImplemented)"

text \<open>The job handed to the next step (it has no \<^verbatim>\<open>branch\<close>).\<close>

definition nextJobFor :: "Job \<Rightarrow> Step \<Rightarrow> Job" where
  "nextJobFor job nextStep =
     \<lparr>step = nextStep, owner = owner job, journey = journey job, customer = customer job,
      location = location job, session = session job, event = event job, branch = None\<rparr>"

text \<open>Lines 670 to 712: the tail of \<^verbatim>\<open>process\<close>.\<close>

definition dispatchNext :: "Env \<Rightarrow> Job \<Rightarrow> World \<Rightarrow> Status \<times> Job \<times> World" where
  "dispatchNext env job w =
     (case steps env (destination (step job)) of
        Some nextStep \<Rightarrow>
          if stepType nextStep \<noteq> TIME_DELAY \<and> stepType nextStep \<noteq> TIME_WINDOW
             \<and> stepType nextStep \<noteq> WAIT_UNTIL_BRANCH
          then
            (case processorMap (stepType nextStep) (nextJobFor job nextStep) w of
               Inl f \<Rightarrow> (Threw f, job, w)
             | Inr w' \<Rightarrow> (Returned, job, w'))
          else (Returned, job, logEffect (Unlock (stepId nextStep)) w)
      | None \<Rightarrow> (Returned, job, logEffect (Unlock (stepId (step job))) w))"

section \<open>The processor\<close>

definition process :: "Env \<Rightarrow> Job \<Rightarrow> World \<Rightarrow> Status \<times> Job \<times> World" where
  "process env job w =
     (case sendGate env job w of
        Inl f \<Rightarrow> (Threw f, job, w)
      | Inr (messageSendType, requeueTime, tpl, w1) \<Rightarrow>
          (case handleSendType env messageSendType requeueTime tpl job w1 of
             Continue j w2 \<Rightarrow> dispatchNext env j w2
           | Stop j w2 \<Rightarrow> (Returned, j, w2)
           | Fail f j w2 \<Rightarrow> (Threw f, j, w2)))"

section \<open>Predicates of the statements\<close>

text \<open>
  The entries of the log that belong to a send, real or mock: the calls of the sender,
  the delivery status, the webhook call, the saving of the free-tier count, the
  diagnostic ping, the synthetic event \<open>sent\<close> and the per-minute increment.
\<close>

fun isSendEffect :: "Effect \<Rightarrow> bool" where
  "isSendEffect (SenderProcess c) = True"
| "isSendEffect (DeliveryStatus c) = True"
| "isSendEffect (WebhookCall s c) = True"
| "isSendEffect (HttpGet u ok) = True"
| "isSendEffect (HttpsGet u ok) = True"
| "isSendEffect (TrackerEvent ev s c) = (ev = ''sent'')"
| "isSendEffect SaveWorkspace = True"
| "isSendEffect MinuteIncrement = True"
| "isSendEffect e = False"

text \<open>\<open>sendOnly es\<close>: every entry of \<open>es\<close> belongs to a send and none is the
  per-minute increment.\<close>

definition sendOnly :: "Effect list \<Rightarrow> bool" where
  "sendOnly es = (MinuteIncrement \<notin> set es \<and> filter isSendEffect es = es)"

text \<open>
  \<open>sendFrame job w r\<close>: what the sending code may change. The outcome \<open>r\<close>, reached from
  \<open>job\<close> and \<open>w\<close>, is not an early return; it keeps the counters, and the step, customer
  and location of the job; it adds entries of a send only; and a fault is not the
  fault of an unimplemented step type.
\<close>

definition sendFrame :: "Job \<Rightarrow> World \<Rightarrow> Outcome \<Rightarrow> bool" where
  "sendFrame job w r =
     (case r of
        Continue j w2 \<Rightarrow>
          location j = location job \<and> step j = step job \<and> customer j = customer job
          \<and> minuteSends w2 = minuteSends w \<and> customersMessaged w2 = customersMessaged w
          \<and> (\<exists>pre. effects w2 = effects w @ pre \<and> sendOnly pre)
      | Fail f j w2 \<Rightarrow>
          f \<noteq> NotImplemented
          \<and> minuteSends w2 = minuteSends w \<and> customersMessaged w2 = customersMessaged w
          \<and> (\<exists>pre. effects w2 = effects w @ pre \<and> sendOnly pre)
      | Stop j w2 \<Rightarrow> False)"

text \<open>The step types at which a customer rests, and the reserved ones, for which
  \<open>processorMap\<close> throws.\<close>

text \<open>
  The queue of each step type, as the spec lists them (``one durable job queue per step
  type''); the reserved types have none. The statements name the queue a job is added to
  by this table.
\<close>

fun stepQueue :: "StepType \<Rightarrow> Queue option" where
  "stepQueue START = Some StartQueue"
| "stepQueue EXPERIMENT = Some ExperimentQueue"
| "stepQueue LOOP = Some JumpToQueue"
| "stepQueue EXIT = Some ExitQueue"
| "stepQueue MULTISPLIT = Some MultisplitQueue"
| "stepQueue MESSAGE = Some MessageQueue"
| "stepQueue TIME_WINDOW = Some TimeWindowQueue"
| "stepQueue TIME_DELAY = Some TimeDelayQueue"
| "stepQueue WAIT_UNTIL_BRANCH = Some WaitUntilQueue"
| "stepQueue ty = None"

text \<open>
  The server's offset is the same at \<open>d\<close> and at the local time \<open>delta\<close> later: no
  change of offset (daylight saving) lies between them.
\<close>

definition sameOffset :: "Env \<Rightarrow> int \<Rightarrow> int \<Rightarrow> bool" where
  "sameOffset env d delta =
     (localTZA env (localTime env d + delta) False = localTZA env d True)"

definition timerStep :: "StepType \<Rightarrow> bool" where
  "timerStep ty = (ty = TIME_DELAY \<or> ty = TIME_WINDOW \<or> ty = WAIT_UNTIL_BRANCH)"

definition reservedStep :: "StepType \<Rightarrow> bool" where
  "reservedStep ty =
     (ty = AB_TEST \<or> ty = RANDOM_COHORT_BRANCH \<or> ty = TRACKER \<or> ty = ATTRIBUTE_BRANCH)"

text \<open>The world after the two rate-limit checks, when neither trips: each check that is
  enabled is one call in the log.\<close>

definition afterCustomersCheck :: "Job \<Rightarrow> World \<Rightarrow> World" where
  "afterCustomersCheck job w =
     (if rateLimitByCustomersMessagedEnabled (journey job)
      then logEffect CheckCustomersMessaged w else w)"

definition afterMinuteCheck :: "Job \<Rightarrow> World \<Rightarrow> World" where
  "afterMinuteCheck job w =
     (if rateLimitByMinuteEnabled (journey job) then logEffect CheckMinute w else w)"

section \<open>Example inputs\<close>

text \<open>
  A message step \<open>s1\<close> with an email template \<open>t1\<close> and destination \<open>s2\<close>, for customer
  \<open>c1\<close> of a workspace at UTC. \<open>exJob js\<close> is the job with journey settings \<open>js\<close>:
  \<open>quietSettings fb\<close> has the quiet window 22:00 to 06:00 with fallback \<open>fb\<close> and no
  limits, \<open>limitSettings c m\<close> no quiet hours and the limits \<open>c\<close> (distinct customers)
  and \<open>m\<close> (per minute). \<open>exEnv now ty mock\<close> reads the clock at \<open>now\<close>, resolves \<open>s2\<close> to
  a step of type \<open>ty\<close> and has \<open>MOCK_MESSAGE_SEND = mock\<close>; \<open>exWorld m c\<close> has the counters
  \<open>m\<close> and \<open>c\<close> and an empty log. \<open>freeJob n\<close> is the job of a free-tier workspace with
  \<open>n\<close> emails left. \<open>pingEnv p fails\<close> is a mock-mode environment with a diagnostic URL
  whose protocol reads \<open>p\<close> (\<open>None\<close>: the URL does not parse) and whose request fails
  when \<open>fails\<close>. The server of \<open>exEnv\<close> runs at UTC; \<open>zoneEnv z now\<close> is \<open>exEnv\<close> on a
  server of zone \<open>z\<close>, and \<open>dstZone T before after\<close> is a zone whose offset changes from
  \<open>before\<close> to \<open>after\<close> at the UTC instant \<open>T\<close> (a local time that the change repeats or
  skips is read with the offset \<open>before\<close>, as ECMAScript has it). \<open>newYork2025\<close> is the
  zone of New York around the two changes of 2025: 2025-03-09 07:00 UTC
  (1741503600000) and 2025-11-02 06:00 UTC (1762063200000).
\<close>

definition exWorkspace :: Workspace where
  "exWorkspace = \<lparr>workspaceId = ''w1'', timezoneUTCOffset = 0, emailProvider = ''mailgun'',
     freeEmailsCount = 3\<rparr>"

definition exOwner :: Account where
  "exOwner = \<lparr>accountId = ''a1'', email = ''owner@example.com'', workspace = Some exWorkspace\<rparr>"

definition exQuietHours :: QuietHours where
  "exQuietHours = \<lparr>enabled = True, startTime = (22, 0), endTime = (6, 0),
     fallbackBehavior = Some NextAvailableTime\<rparr>"

definition noLimit :: RateLimit where
  "noLimit = \<lparr>limitEnabled = False, limitMax = 0\<rparr>"

definition capOne :: RateLimit where
  "capOne = \<lparr>limitEnabled = True, limitMax = 1\<rparr>"

definition exStep :: Step where
  "exStep = \<lparr>stepId = ''s1'', stepType = MESSAGE, template = ''t1'', destination = ''s2'',
     selectedPlatform = ''All'', humanReadableName = ''welcome''\<rparr>"

definition exJob :: "JourneySettings option \<Rightarrow> Job" where
  "exJob js = \<lparr>step = exStep, owner = exOwner,
     journey = \<lparr>journeyId = ''j1'', journeySettings = js\<rparr>,
     customer = \<lparr>customerId = ''c1''\<rparr>, location = \<lparr>messageSent = False\<rparr>,
     session = ''x1'', event = None, branch = None\<rparr>"

definition quietSettings :: "JourneySettingsQuietFallbackBehavior option \<Rightarrow> JourneySettings" where
  "quietSettings fb = \<lparr>quietHours = Some (exQuietHours\<lparr>fallbackBehavior := fb\<rparr>),
     customersMessagedLimit = noLimit, perMinuteLimit = noLimit\<rparr>"

definition limitSettings :: "RateLimit \<Rightarrow> RateLimit \<Rightarrow> JourneySettings" where
  "limitSettings c m = \<lparr>quietHours = None, customersMessagedLimit = c, perMinuteLimit = m\<rparr>"

definition exTemplate :: Template where
  "exTemplate = \<lparr>templateId = ''t1'', templateType = EMAIL, webhookData = None\<rparr>"

definition exNextStep :: "StepType \<Rightarrow> Step" where
  "exNextStep ty = \<lparr>stepId = ''s2'', stepType = ty, template = [], destination = [],
     selectedPlatform = [], humanReadableName = ''next''\<rparr>"

definition exEnv :: "int \<Rightarrow> StepType \<Rightarrow> string option \<Rightarrow> Env" where
  "exEnv now ty mock = \<lparr>nowQuiet = now, nowLimit = now, localTZA = (\<lambda>t isUTC. 0),
     templates = (\<lambda>i. if i = ''t1'' then Some exTemplate else None),
     steps = (\<lambda>i. if i = ''s2'' then Some (exNextStep ty) else None),
     MOCK_MESSAGE_SEND = mock, MOCK_MESSAGE_SEND_URL = None,
     urlProtocol = (\<lambda>u. None), requestFails = False, senderThrows = (\<lambda>c. False)\<rparr>"

definition exWorld :: "nat \<Rightarrow> nat \<Rightarrow> World" where
  "exWorld m c = \<lparr>minuteSends = m, customersMessaged = c, effects = []\<rparr>"

definition freeJob :: "int \<Rightarrow> Job" where
  "freeJob n = (exJob None)\<lparr>owner := exOwner\<lparr>workspace :=
     Some (exWorkspace\<lparr>emailProvider := ''free3'', freeEmailsCount := n\<rparr>)\<rparr>\<rparr>"

definition pingEnv :: "string option \<Rightarrow> bool \<Rightarrow> Env" where
  "pingEnv p fails = (exEnv 30000 EXIT (Some ''true''))\<lparr>MOCK_MESSAGE_SEND_URL := Some ''http://ping'',
     urlProtocol := (\<lambda>u. p), requestFails := fails\<rparr>"

definition dstZone :: "int \<Rightarrow> int \<Rightarrow> int \<Rightarrow> int \<Rightarrow> bool \<Rightarrow> int" where
  "dstZone T before after t isUTC =
     (if isUTC then (if t < T then before else after)
      else (if t < T + max before after then before else after))"

definition newYork2025 :: "int \<Rightarrow> bool \<Rightarrow> int" where
  "newYork2025 t isUTC =
     (if (if isUTC then t else t + 18000000) < 1750000000000
      then dstZone 1741503600000 (- 18000000) (- 14400000) t isUTC
      else dstZone 1762063200000 (- 14400000) (- 18000000) t isUTC)"

definition zoneEnv :: "(int \<Rightarrow> bool \<Rightarrow> int) \<Rightarrow> int \<Rightarrow> Env" where
  "zoneEnv z now = (exEnv now EXIT None)\<lparr>localTZA := z\<rparr>"

lemmas example_defs =
  exWorkspace_def exOwner_def exQuietHours_def noLimit_def capOne_def exStep_def exJob_def
  quietSettings_def limitSettings_def exTemplate_def exNextStep_def exEnv_def exWorld_def
  freeJob_def pingEnv_def dstZone_def newYork2025_def zoneEnv_def

lemmas time_defs =
  msPerMinute_def msPerHour_def msPerDay_def formatUTC_def setUTCHours_def addOneDay_def
  addOneMinute_def localTime_def utcOfLocal_def minuteOfDay_def convertTimeToUTC_def
  isWithinInterval_def

lemmas gate_defs =
  quietHoursCheck_def customersMessagedCheck_def minuteCheck_def mockCheck_def sendGate_def
  rateLimitByCustomersMessagedEnabled_def rateLimitByCustomersMessaged_def
  rateLimitByMinuteEnabled_def rateLimitByMinute_def logEffect_def

lemmas process_defs =
  process_def handleSendType_def realSend_def sendByTemplate_def senderProcess_def
  sendPush_def andThen_def afterSend_def trackerEvent_def mockPing_def mockSend_def
  holdAtCurrent_def requeue_def dispatchNext_def processorMap_def nextJobFor_def
  rateLimitByMinuteIncrement_def creditCustomerMessaged_def

section \<open>Time of day\<close>








section \<open>Frame lemmas\<close>

lemma dispatchNext_frame:
  assumes "dispatchNext env job w = (st, j', w')"
  shows "j' = job \<and> minuteSends w' = minuteSends w \<and> customersMessaged w' = customersMessaged w
         \<and> (\<exists>es. effects w' = effects w @ es \<and> filter isSendEffect es = [])"
  using assms
  by (auto simp: dispatchNext_def processorMap_def logEffect_def
           split: option.splits StepType.splits if_splits)

lemma quietHoursCheck_inside:
  assumes "journeySettings (journey job) = Some js" and "quietHours js = Some qh"
    and "enabled qh" and "workspace (owner job) = Some ws"
    and "isWithinInterval (convertTimeToUTC (startTime qh) (timezoneUTCOffset ws))
           (convertTimeToUTC (endTime qh) (timezoneUTCOffset ws)) (formatUTC (nowQuiet env))"
  shows "\<exists>rq. quietHoursCheck env job =
           Inr (if fallbackBehavior qh = Some Abort then QUIET_ABORT else QUIET_REQUEUE, Some rq)"
  using assms
  by (auto simp: quietHoursCheck_def Let_def
           split: option.splits JourneySettingsQuietFallbackBehavior.splits)

lemma sendGate_not_SEND:
  assumes "quietHoursCheck env job = Inr (d, rq)" and "d \<noteq> SEND"
  shows "sendGate env job w = Inr (d, rq, templates env (template (step job)), w)"
  using assms
  by (simp add: sendGate_def customersMessagedCheck_def minuteCheck_def mockCheck_def)

section \<open>The claims\<close>

text \<open>
  C1. Where the journey has quiet hours enabled and the current UTC time of day lies in
  the quiet window (the window of the journey converted to UTC with the workspace's
  offset, wraparound included), the gate decides \<open>QUIET_ABORT\<close> for the fallback \<open>Abort\<close>
  and \<open>QUIET_REQUEUE\<close> for \<open>NextAvailableTime\<close> or no fallback; so never \<open>SEND\<close> or
  \<open>MOCK_SEND\<close>, and the run adds no effect of a real or mock send to the log and leaves
  \<open>messageSent\<close> as it was.
\<close>

theorem quiet_window_decision:
  assumes "journeySettings (journey job) = Some js" and "quietHours js = Some qh"
    and "enabled qh" and "workspace (owner job) = Some ws"
    and "isWithinInterval (convertTimeToUTC (startTime qh) (timezoneUTCOffset ws))
           (convertTimeToUTC (endTime qh) (timezoneUTCOffset ws)) (formatUTC (nowQuiet env))"
  shows "(\<exists>rq tpl w1. sendGate env job w =
            Inr (if fallbackBehavior qh = Some Abort then QUIET_ABORT else QUIET_REQUEUE,
                 rq, tpl, w1))
         \<and> filter isSendEffect (effects (snd (snd (process env job w))))
             = filter isSendEffect (effects w)
         \<and> location (fst (snd (process env job w))) = location job"
proof -
  let ?d = "if fallbackBehavior qh = Some Abort then QUIET_ABORT else QUIET_REQUEUE"
  from quietHoursCheck_inside [OF assms] obtain rq where
    q: "quietHoursCheck env job = Inr (?d, Some rq)" by blast
  have ns: "?d \<noteq> SEND" by simp
  have g: "sendGate env job w = Inr (?d, Some rq, templates env (template (step job)), w)"
    by (rule sendGate_not_SEND [OF q ns])
  obtain st j' w' where d: "dispatchNext env job
      (logEffect (TrackerEvent ''aborted'' (stepId (step job)) (customerId (customer job))) w)
        = (st, j', w')"
    by (metis prod_cases3)
  note f = dispatchNext_frame [OF d]
  have "filter isSendEffect (effects (snd (snd (process env job w))))
             = filter isSendEffect (effects w)
         \<and> location (fst (snd (process env job w))) = location job"
    using f d assms(4)
    by (auto simp: process_def g handleSendType_def trackerEvent_def requeue_def logEffect_def)
  with g show ?thesis by blast
qed

theorem quiet_window_decision_witness:
  "(\<exists>rq tpl w1. sendGate (exEnv 84600000 EXIT (Some ''true''))
        (exJob (Some (quietSettings (Some Abort)))) (exWorld 0 0) = Inr (QUIET_ABORT, rq, tpl, w1))
   \<and> filter isSendEffect (effects (snd (snd (process (exEnv 84600000 EXIT (Some ''true''))
        (exJob (Some (quietSettings (Some Abort)))) (exWorld 0 0))))) = []
   \<and> messageSent (location (fst (snd (process (exEnv 84600000 EXIT (Some ''true''))
        (exJob (Some (quietSettings (Some Abort)))) (exWorld 0 0))))) = False"
proof -
  let ?J = "exJob (Some (quietSettings (Some Abort)))"
  let ?E = "exEnv 84600000 EXIT (Some ''true'')"
  let ?qh = "exQuietHours\<lparr>fallbackBehavior := Some Abort\<rparr>"
  have h1: "journeySettings (journey ?J) = Some (quietSettings (Some Abort))"
    by (simp add: exJob_def)
  have h2: "quietHours (quietSettings (Some Abort)) = Some ?qh"
    by (simp add: quietSettings_def)
  have h3: "enabled ?qh" by (simp add: exQuietHours_def)
  have h4: "workspace (owner ?J) = Some exWorkspace" by (simp add: exJob_def exOwner_def)
  have h5: "isWithinInterval (convertTimeToUTC (startTime ?qh) (timezoneUTCOffset exWorkspace))
           (convertTimeToUTC (endTime ?qh) (timezoneUTCOffset exWorkspace))
           (formatUTC (nowQuiet ?E))"
    by (simp add: time_defs example_defs)
  have l: "location ?J = \<lparr>messageSent = False\<rparr>" by (simp add: exJob_def)
  show ?thesis
    using quiet_window_decision [OF h1 h2 h3 h4 h5, of "exWorld 0 0"]
    by (simp add: l exWorld_def)
qed

lemma rateLimitByMinute_logEffect:
  "rateLimitByMinute (logEffect e w) j = rateLimitByMinute w j"
  by (simp add: rateLimitByMinute_def logEffect_def split: option.splits)

lemma sendGate_hold:
  assumes "quietHoursCheck env job = Inr (SEND, r0)"
    and "rateLimitByCustomersMessagedEnabled (journey job)"
    and "rateLimitByCustomersMessaged w (journey job)"
  shows "sendGate env job w =
     Inr (LIMIT_HOLD, r0, templates env (template (step job)), logEffect CheckCustomersMessaged w)"
  using assms
  by (simp add: sendGate_def customersMessagedCheck_def minuteCheck_def mockCheck_def)

lemma sendGate_minute:
  assumes "quietHoursCheck env job = Inr (SEND, r0)"
    and "\<not> (rateLimitByCustomersMessagedEnabled (journey job)
             \<and> rateLimitByCustomersMessaged w (journey job))"
    and "rateLimitByMinuteEnabled (journey job)" and "rateLimitByMinute w (journey job)"
  shows "sendGate env job w =
     Inr (LIMIT_REQUEUE, Some (addOneMinute env (nowLimit env)), templates env (template (step job)),
          logEffect CheckMinute (afterCustomersCheck job w))"
  using assms
  by (auto simp: sendGate_def customersMessagedCheck_def minuteCheck_def mockCheck_def
        afterCustomersCheck_def rateLimitByMinute_logEffect)

lemma sendGate_pass:
  assumes "quietHoursCheck env job = Inr (SEND, r0)"
    and "\<not> (rateLimitByCustomersMessagedEnabled (journey job)
             \<and> rateLimitByCustomersMessaged w (journey job))"
    and "\<not> (rateLimitByMinuteEnabled (journey job) \<and> rateLimitByMinute w (journey job))"
  shows "sendGate env job w =
     Inr (mockCheck env (templates env (template (step job))) SEND, r0,
          templates env (template (step job)),
          afterMinuteCheck job (afterCustomersCheck job w))"
  using assms
  by (auto simp: sendGate_def customersMessagedCheck_def minuteCheck_def Let_def
        afterCustomersCheck_def afterMinuteCheck_def rateLimitByMinute_logEffect)

lemma effects_afterCustomersCheck:
  "effects (afterCustomersCheck job w) =
     effects w @ (if rateLimitByCustomersMessagedEnabled (journey job)
                  then [CheckCustomersMessaged] else [])"
  by (simp add: afterCustomersCheck_def logEffect_def)

lemma effects_afterMinuteCheck:
  "effects (afterMinuteCheck job w) =
     effects w @ (if rateLimitByMinuteEnabled (journey job) then [CheckMinute] else [])"
  by (simp add: afterMinuteCheck_def logEffect_def)

lemma mockCheck_SEND:
  "(mockCheck env tpl SEND = SEND \<or> mockCheck env tpl SEND = MOCK_SEND)
   \<and> (mockCheck env tpl SEND = MOCK_SEND \<longleftrightarrow>
        MOCK_MESSAGE_SEND env = Some ''true'' \<and> (\<exists>t. tpl = Some t \<and> webhookData t = None))"
  by (cases tpl) (simp_all add: mockCheck_def)

text \<open>
  C2. The guards run in the order quiet hours, distinct customers messaged, per minute,
  mock, each only while the decision is still \<open>SEND\<close>: a decision the quiet hours moved
  is final and no rate-limit check is called; when the distinct-customers check trips
  the result is \<open>LIMIT_HOLD\<close> whatever the per-minute counter says, and the per-minute
  check is not called; the per-minute check is called after the distinct-customers
  check and its \<open>LIMIT_REQUEUE\<close> is not overridden by mock mode; mock mode is decided
  last.
\<close>

theorem gate_guard_order:
  assumes "quietHoursCheck env job = Inr (d0, r0)"
  shows "(d0 \<noteq> SEND \<longrightarrow> (\<exists>tpl. sendGate env job w = Inr (d0, r0, tpl, w)))
    \<and> (d0 = SEND \<and> rateLimitByCustomersMessagedEnabled (journey job)
          \<and> rateLimitByCustomersMessaged w (journey job)
        \<longrightarrow> (\<exists>tpl w1. sendGate env job w = Inr (LIMIT_HOLD, r0, tpl, w1)
               \<and> effects w1 = effects w @ [CheckCustomersMessaged]))
    \<and> (d0 = SEND
          \<and> \<not> (rateLimitByCustomersMessagedEnabled (journey job)
                 \<and> rateLimitByCustomersMessaged w (journey job))
          \<and> rateLimitByMinuteEnabled (journey job) \<and> rateLimitByMinute w (journey job)
        \<longrightarrow> (\<exists>rq tpl w1. sendGate env job w = Inr (LIMIT_REQUEUE, rq, tpl, w1)
               \<and> effects w1 = effects w
                    @ (if rateLimitByCustomersMessagedEnabled (journey job)
                       then [CheckCustomersMessaged] else [])
                    @ [CheckMinute]))
    \<and> (d0 = SEND
          \<and> \<not> (rateLimitByCustomersMessagedEnabled (journey job)
                 \<and> rateLimitByCustomersMessaged w (journey job))
          \<and> \<not> (rateLimitByMinuteEnabled (journey job) \<and> rateLimitByMinute w (journey job))
        \<longrightarrow> (\<exists>d tpl w1. sendGate env job w = Inr (d, r0, tpl, w1)
               \<and> (d = SEND \<or> d = MOCK_SEND)
               \<and> (d = MOCK_SEND \<longleftrightarrow> MOCK_MESSAGE_SEND env = Some ''true''
                     \<and> (\<exists>t. tpl = Some t \<and> webhookData t = None))
               \<and> effects w1 = effects w
                    @ (if rateLimitByCustomersMessagedEnabled (journey job)
                       then [CheckCustomersMessaged] else [])
                    @ (if rateLimitByMinuteEnabled (journey job) then [CheckMinute] else [])))"
    (is "?A \<and> ?B \<and> ?C \<and> ?D")
proof -
  have a: ?A using sendGate_not_SEND [OF assms] by blast
  have b: ?B
  proof (intro impI, elim conjE)
    assume "d0 = SEND" and c: "rateLimitByCustomersMessagedEnabled (journey job)"
      "rateLimitByCustomersMessaged w (journey job)"
    with assms have q: "quietHoursCheck env job = Inr (SEND, r0)" by simp
    show "\<exists>tpl w1. sendGate env job w = Inr (LIMIT_HOLD, r0, tpl, w1)
               \<and> effects w1 = effects w @ [CheckCustomersMessaged]"
      by (simp add: sendGate_hold [OF q c] logEffect_def)
  qed
  have c: ?C
  proof (intro impI, elim conjE)
    assume "d0 = SEND" and c: "\<not> (rateLimitByCustomersMessagedEnabled (journey job)
                 \<and> rateLimitByCustomersMessaged w (journey job))"
      and m: "rateLimitByMinuteEnabled (journey job)" "rateLimitByMinute w (journey job)"
    with assms have q: "quietHoursCheck env job = Inr (SEND, r0)" by simp
    show "\<exists>rq tpl w1. sendGate env job w = Inr (LIMIT_REQUEUE, rq, tpl, w1)
               \<and> effects w1 = effects w
                    @ (if rateLimitByCustomersMessagedEnabled (journey job)
                       then [CheckCustomersMessaged] else [])
                    @ [CheckMinute]"
      by (simp add: sendGate_minute [OF q c m] logEffect_def effects_afterCustomersCheck)
  qed
  have d: ?D
  proof (intro impI, elim conjE)
    assume "d0 = SEND" and c: "\<not> (rateLimitByCustomersMessagedEnabled (journey job)
                 \<and> rateLimitByCustomersMessaged w (journey job))"
      and m: "\<not> (rateLimitByMinuteEnabled (journey job) \<and> rateLimitByMinute w (journey job))"
    with assms have q: "quietHoursCheck env job = Inr (SEND, r0)" by simp
    let ?tpl = "templates env (template (step job))"
    have "sendGate env job w = Inr (mockCheck env ?tpl SEND, r0, ?tpl,
            afterMinuteCheck job (afterCustomersCheck job w))
          \<and> (mockCheck env ?tpl SEND = SEND \<or> mockCheck env ?tpl SEND = MOCK_SEND)
          \<and> (mockCheck env ?tpl SEND = MOCK_SEND \<longleftrightarrow> MOCK_MESSAGE_SEND env = Some ''true''
                     \<and> (\<exists>t. ?tpl = Some t \<and> webhookData t = None))
          \<and> effects (afterMinuteCheck job (afterCustomersCheck job w)) = effects w
                    @ (if rateLimitByCustomersMessagedEnabled (journey job)
                       then [CheckCustomersMessaged] else [])
                    @ (if rateLimitByMinuteEnabled (journey job) then [CheckMinute] else [])"
      using sendGate_pass [OF q c m] mockCheck_SEND [of env ?tpl]
      by (simp only: effects_afterCustomersCheck effects_afterMinuteCheck append_assoc) blast
    then show "\<exists>d tpl w1. sendGate env job w = Inr (d, r0, tpl, w1)
               \<and> (d = SEND \<or> d = MOCK_SEND)
               \<and> (d = MOCK_SEND \<longleftrightarrow> MOCK_MESSAGE_SEND env = Some ''true''
                     \<and> (\<exists>t. tpl = Some t \<and> webhookData t = None))
               \<and> effects w1 = effects w
                    @ (if rateLimitByCustomersMessagedEnabled (journey job)
                       then [CheckCustomersMessaged] else [])
                    @ (if rateLimitByMinuteEnabled (journey job) then [CheckMinute] else [])"
      by blast
  qed
  from a b c d show ?thesis by blast
qed

theorem gate_guard_order_witness:
  "\<exists>tpl w1. sendGate (exEnv 30000 EXIT (Some ''true''))
       (exJob (Some (limitSettings capOne capOne))) (exWorld 1 1)
       = Inr (LIMIT_HOLD, None, tpl, w1)
     \<and> effects w1 = [CheckCustomersMessaged]"
proof -
  let ?J = "exJob (Some (limitSettings capOne capOne))"
  let ?E = "exEnv 30000 EXIT (Some ''true'')"
  have q: "quietHoursCheck ?E ?J = Inr (SEND, None)"
    by (simp add: quietHoursCheck_def exJob_def limitSettings_def)
  have c: "rateLimitByCustomersMessagedEnabled (journey ?J)
      \<and> rateLimitByCustomersMessaged (exWorld 1 1) (journey ?J)"
    by (simp add: gate_defs example_defs)
  show ?thesis
    using gate_guard_order [OF q, of "exWorld 1 1"] c
    by (simp add: exWorld_def)
qed
lemma sendGate_quiet_inv:
  assumes "sendGate env job w = Inr (d, rq, tpl, w1)" and "d = QUIET_REQUEUE \<or> d = QUIET_ABORT"
  shows "quietHoursCheck env job = Inr (d, rq) \<and> w1 = w"
proof (cases "quietHoursCheck env job")
  case (Inl f)
  with assms(1) show ?thesis by (simp add: sendGate_def)
next
  case (Inr p)
  obtain d0 r0 where p: "p = (d0, r0)" by (cases p)
  show ?thesis
  proof (cases "d0 = SEND")
    case False
    from sendGate_not_SEND [OF Inr [unfolded p] False, of w] assms(1)
    show ?thesis using Inr p by simp
  next
    case True
    with assms Inr p show ?thesis
      by (auto simp: sendGate_def customersMessagedCheck_def minuteCheck_def mockCheck_def
            Let_def split: if_splits)
  qed
qed



lemma addOneMinute_sameOffset:
  assumes "sameOffset env d msPerMinute"
  shows "addOneMinute env d = d + msPerMinute"
  using assms by (simp add: sameOffset_def addOneMinute_def utcOfLocal_def localTime_def)




text \<open>
  C4, as the spec states it, fails: with the per-minute cap reached at 00:00:30 the gate
  requeues for 00:01:30 (the clock reading with its minute advanced by one), while
  now + (60 - now.seconds) seconds is 00:01:00. The minute is advanced in the server's
  local time: on a server in New York at 2025-11-02 05:59:30 UTC (1762063170000), half a
  minute before the clocks go back, the gate requeues for 07:00:30 UTC (1762066830000),
  61 minutes later and not within the next minute.
\<close>

theorem per_minute_requeue_counterexample:
  "sendGate (exEnv 30000 EXIT None) (exJob (Some (limitSettings noLimit capOne))) (exWorld 1 0)
     = Inr (LIMIT_REQUEUE, Some 90000, Some exTemplate,
            \<lparr>minuteSends = 1, customersMessaged = 0, effects = [CheckMinute]\<rparr>)
   \<and> (90000 :: int) \<noteq> 30000 + (60 - (30000 div 1000) mod 60) * 1000
   \<and> sendGate (zoneEnv newYork2025 1762063170000) (exJob (Some (limitSettings noLimit capOne)))
        (exWorld 1 0)
     = Inr (LIMIT_REQUEUE, Some 1762066830000, Some exTemplate,
            \<lparr>minuteSends = 1, customersMessaged = 0, effects = [CheckMinute]\<rparr>)
   \<and> (1762066830000 :: int) = 1762063170000 + 61 * 60000
   \<and> (1762066830000 :: int) div 60000 \<noteq> 1762063170000 div 60000 + 1"
  by (simp add: gate_defs time_defs example_defs)

text \<open>
  C4, amended. When the per-minute check is reached (the quiet hours and the
  distinct-customers check left the decision at \<open>SEND\<close>), the limit is enabled and the
  minute's send count has reached its cap, the gate decides \<open>LIMIT_REQUEUE\<close> and
  \<open>requeueTime\<close> is the clock reading with the minute of its local time advanced by one.
  Where the server's offset from UTC does not change within that minute, this is now plus
  60 seconds: the same second and millisecond of the next minute.
\<close>

theorem per_minute_requeue_time:
  assumes "quietHoursCheck env job = Inr (SEND, r0)"
    and "\<not> (rateLimitByCustomersMessagedEnabled (journey job)
             \<and> rateLimitByCustomersMessaged w (journey job))"
    and "rateLimitByMinuteEnabled (journey job)" and "rateLimitByMinute w (journey job)"
  shows "(\<exists>tpl w1. sendGate env job w
            = Inr (LIMIT_REQUEUE, Some (addOneMinute env (nowLimit env)), tpl, w1))
    \<and> (sameOffset env (nowLimit env) msPerMinute \<longrightarrow>
          addOneMinute env (nowLimit env) = nowLimit env + 60000
          \<and> (nowLimit env + 60000) div 60000 = nowLimit env div 60000 + 1
          \<and> (nowLimit env + 60000) mod 60000 = nowLimit env mod 60000)"
proof -
  have d: "(x + 60000) div 60000 = x div 60000 + 1" "(x + 60000) mod 60000 = x mod 60000"
    for x :: int
    by simp_all
  have "sameOffset env (nowLimit env) msPerMinute \<longrightarrow>
          addOneMinute env (nowLimit env) = nowLimit env + 60000"
    using addOneMinute_sameOffset [of env "nowLimit env"] by (simp add: msPerMinute_def)
  with sendGate_minute [OF assms] d show ?thesis by simp
qed

theorem per_minute_requeue_time_witness:
  "(\<exists>tpl w1. sendGate (exEnv 30000 EXIT None) (exJob (Some (limitSettings noLimit capOne)))
       (exWorld 1 0) = Inr (LIMIT_REQUEUE, Some 90000, tpl, w1))
   \<and> sameOffset (exEnv 30000 EXIT None) 30000 msPerMinute
   \<and> (90000 :: int) div 60000 = 30000 div 60000 + 1
   \<and> (90000 :: int) mod 60000 = 30000 mod 60000"
proof -
  let ?J = "exJob (Some (limitSettings noLimit capOne))"
  let ?E = "exEnv 30000 EXIT None"
  have q: "quietHoursCheck ?E ?J = Inr (SEND, None)"
    by (simp add: quietHoursCheck_def exJob_def limitSettings_def)
  have c: "\<not> (rateLimitByCustomersMessagedEnabled (journey ?J)
      \<and> rateLimitByCustomersMessaged (exWorld 1 0) (journey ?J))"
    by (simp add: gate_defs example_defs)
  have m: "rateLimitByMinuteEnabled (journey ?J)" "rateLimitByMinute (exWorld 1 0) (journey ?J)"
    by (simp_all add: gate_defs example_defs)
  have n: "nowLimit ?E = 30000" by (simp add: exEnv_def)
  have z: "sameOffset ?E d msPerMinute" for d by (simp add: sameOffset_def exEnv_def)
  from per_minute_requeue_time [OF q c m] z
  have a: "\<exists>tpl w1. sendGate ?E ?J (exWorld 1 0)
            = Inr (LIMIT_REQUEUE, Some (addOneMinute ?E (nowLimit ?E)), tpl, w1)"
    and b: "addOneMinute ?E (nowLimit ?E) = nowLimit ?E + 60000"
    by blast+
  from a b z show ?thesis by (simp add: n)
qed
lemma quietHoursCheck_SEND:
  assumes "quietHoursCheck env job = Inr (SEND, r0)"
  shows "r0 = None"
proof (cases "journeySettings (journey job)")
  case None
  with assms show ?thesis by (simp add: quietHoursCheck_def)
next
  case (Some js)
  show ?thesis
  proof (cases "quietHours js")
    case None
    with assms Some show ?thesis by (simp add: quietHoursCheck_def)
  next
    case (Some qh)
    with assms \<open>journeySettings (journey job) = Some js\<close> show ?thesis
      by (cases "workspace (owner job)"; cases "fallbackBehavior qh")
         (auto simp: quietHoursCheck_def Let_def
            split: if_splits JourneySettingsQuietFallbackBehavior.splits)
  qed
qed

lemma sendGate_cases:
  assumes "sendGate env job w = Inr (d, rq, tpl, w1)"
  obtains
    (quiet) "quietHoursCheck env job = Inr (d, rq)" and "d \<noteq> SEND" and "w1 = w"
  | (hold) "quietHoursCheck env job = Inr (SEND, None)" and "d = LIMIT_HOLD" and "rq = None"
      and "w1 = logEffect CheckCustomersMessaged w"
  | (minute) "quietHoursCheck env job = Inr (SEND, None)" and "d = LIMIT_REQUEUE"
      and "rq = Some (addOneMinute env (nowLimit env))"
      and "w1 = logEffect CheckMinute (afterCustomersCheck job w)"
  | (pass) "quietHoursCheck env job = Inr (SEND, None)" and "d = mockCheck env tpl SEND"
      and "rq = None" and "w1 = afterMinuteCheck job (afterCustomersCheck job w)"
proof (cases "quietHoursCheck env job")
  case (Inl f)
  with assms show ?thesis by (simp add: sendGate_def)
next
  case (Inr p)
  obtain d0 r0 where p: "p = (d0, r0)" by (cases p)
  show ?thesis
  proof (cases "d0 = SEND")
    case False
    from sendGate_not_SEND [OF Inr [unfolded p] False, of w] assms(1)
    have "d0 = d" "r0 = rq" "w1 = w" by simp_all
    with Inr p False show ?thesis by (intro quiet) simp_all
  next
    case True
    with Inr p have q0: "quietHoursCheck env job = Inr (SEND, r0)" by simp
    from quietHoursCheck_SEND [OF q0] q0
    have q: "quietHoursCheck env job = Inr (SEND, None)" and r0: "r0 = None" by simp_all
    show ?thesis
    proof (cases "rateLimitByCustomersMessagedEnabled (journey job)
                  \<and> rateLimitByCustomersMessaged w (journey job)")
      case True
      then have "sendGate env job w = Inr (LIMIT_HOLD, None,
          templates env (template (step job)), logEffect CheckCustomersMessaged w)"
        using sendGate_hold [OF q] by simp
      with assms show ?thesis by (intro hold [OF q]) simp_all
    next
      case c: False
      show ?thesis
      proof (cases "rateLimitByMinuteEnabled (journey job) \<and> rateLimitByMinute w (journey job)")
        case True
        then have "sendGate env job w = Inr (LIMIT_REQUEUE, Some (addOneMinute env (nowLimit env)),
            templates env (template (step job)),
            logEffect CheckMinute (afterCustomersCheck job w))"
          using sendGate_minute [OF q c] by simp
        with assms show ?thesis by (intro minute [OF q]) simp_all
      next
        case False
        from sendGate_pass [OF q c False] assms show ?thesis
          by (intro pass [OF q]) simp_all
      qed
    qed
  qed
qed

lemma counters_logEffect:
  "minuteSends (logEffect e w) = minuteSends w"
  "customersMessaged (logEffect e w) = customersMessaged w"
  "effects (logEffect e w) = effects w @ [e]"
  by (simp_all add: logEffect_def)

lemma counters_afterCustomersCheck:
  "minuteSends (afterCustomersCheck job w) = minuteSends w"
  "customersMessaged (afterCustomersCheck job w) = customersMessaged w"
  by (simp_all add: afterCustomersCheck_def counters_logEffect)

lemma counters_afterMinuteCheck:
  "minuteSends (afterMinuteCheck job w) = minuteSends w"
  "customersMessaged (afterMinuteCheck job w) = customersMessaged w"
  by (simp_all add: afterMinuteCheck_def counters_logEffect)

lemmas gate_frame_simps =
  counters_logEffect counters_afterCustomersCheck counters_afterMinuteCheck
  effects_afterCustomersCheck effects_afterMinuteCheck

lemma sendGate_frame:
  assumes "sendGate env job w = Inr (d, rq, tpl, w1)"
  shows "minuteSends w1 = minuteSends w \<and> customersMessaged w1 = customersMessaged w
    \<and> (\<exists>cs. effects w1 = effects w @ cs \<and> set cs \<subseteq> {CheckCustomersMessaged, CheckMinute})"
  using assms
proof (cases rule: sendGate_cases)
  case quiet
  then show ?thesis by simp
next
  case hold
  then show ?thesis by (simp add: gate_frame_simps)
next
  case minute
  then show ?thesis by (auto simp: gate_frame_simps)
next
  case pass
  then show ?thesis by (auto simp: gate_frame_simps)
qed

lemma sendGate_requeue_time:
  assumes "sendGate env job w = Inr (d, rq, tpl, w1)"
    and "d = QUIET_REQUEUE \<or> d = LIMIT_REQUEUE"
  shows "\<exists>t. rq = Some t"
  using assms(1)
proof (cases rule: sendGate_cases)
  case quiet
  then show ?thesis
    by (auto simp: quietHoursCheck_def Let_def split: option.splits if_splits)
next
  case hold
  with assms(2) show ?thesis by simp
next
  case minute
  then show ?thesis by simp
next
  case pass
  with assms(2) mockCheck_SEND [of env tpl] show ?thesis by auto
qed

lemma sendOnly_append: "sendOnly xs \<Longrightarrow> sendOnly ys \<Longrightarrow> sendOnly (xs @ ys)"
  by (simp add: sendOnly_def)

lemma sendFrame_Continue_same: "sendFrame job w (Continue job w)"
  by (simp add: sendFrame_def sendOnly_def)

lemma sendFrame_Fail_same: "f \<noteq> NotImplemented \<Longrightarrow> sendFrame job w (Fail f j w)"
  by (simp add: sendFrame_def sendOnly_def)

lemma sendFrame_log:
  "isSendEffect e \<Longrightarrow> e \<noteq> MinuteIncrement \<Longrightarrow> sendFrame job w (Continue job (logEffect e w))"
  by (simp add: sendFrame_def sendOnly_def logEffect_def)

lemma sendFrame_senderProcess: "sendFrame job w (senderProcess env c job w)"
  by (simp add: sendFrame_def senderProcess_def sendOnly_def logEffect_def)

lemma sendFrame_trans:
  assumes "sendFrame job w (Continue j1 w1)" and "sendFrame j1 w1 r"
  shows "sendFrame job w r"
proof -
  from assms(1) obtain pre where
    a: "location j1 = location job" "step j1 = step job" "customer j1 = customer job"
       "minuteSends w1 = minuteSends w" "customersMessaged w1 = customersMessaged w"
       "effects w1 = effects w @ pre" "sendOnly pre"
    by (auto simp: sendFrame_def)
  show ?thesis
  proof (cases r)
    case (Continue j w2)
    with assms(2) obtain pre' where
      b: "location j = location j1" "step j = step j1" "customer j = customer j1"
         "minuteSends w2 = minuteSends w1" "customersMessaged w2 = customersMessaged w1"
         "effects w2 = effects w1 @ pre'" "sendOnly pre'"
      by (auto simp: sendFrame_def)
    have "effects w2 = effects w @ (pre @ pre') \<and> sendOnly (pre @ pre')"
      using a b by (simp add: sendOnly_append)
    then have "\<exists>p. effects w2 = effects w @ p \<and> sendOnly p" by blast
    with a b Continue show ?thesis by (simp add: sendFrame_def)
  next
    case (Stop j w2)
    with assms(2) show ?thesis by (simp add: sendFrame_def)
  next
    case (Fail f j w2)
    with assms(2) obtain pre' where
      b: "f \<noteq> NotImplemented"
         "minuteSends w2 = minuteSends w1" "customersMessaged w2 = customersMessaged w1"
         "effects w2 = effects w1 @ pre'" "sendOnly pre'"
      by (auto simp: sendFrame_def)
    have "effects w2 = effects w @ (pre @ pre') \<and> sendOnly (pre @ pre')"
      using a b by (simp add: sendOnly_append)
    then have "\<exists>p. effects w2 = effects w @ p \<and> sendOnly p" by blast
    with a b Fail show ?thesis by (simp add: sendFrame_def)
  qed
qed

lemma sendFrame_andThen:
  assumes "sendFrame job w r"
    and "\<And>j1 w1. r = Continue j1 w1 \<Longrightarrow> sendFrame j1 w1 (f j1 w1)"
  shows "sendFrame job w (andThen r f)"
proof (cases r)
  case (Continue j1 w1)
  with assms(1) have "sendFrame job w (Continue j1 w1)" by simp
  from sendFrame_trans [OF this assms(2) [OF Continue]] Continue
  show ?thesis by (simp add: andThen_def)
next
  case (Stop j w2)
  with assms(1) show ?thesis by (simp add: sendFrame_def)
next
  case (Fail f j w2)
  with assms(1) show ?thesis by (simp add: andThen_def)
qed

lemma sendFrame_owner:
  "sendFrame (job\<lparr>owner := a\<rparr>) w r \<Longrightarrow> sendFrame job w r"
  by (cases r) (simp_all add: sendFrame_def)

lemma sendFrame_sendPush: "sendFrame job w (sendPush env c job w)"
  by (cases "journeySettings (journey job)"; cases "quietHours (the (journeySettings (journey job)))")
     (simp_all add: sendPush_def sendFrame_senderProcess sendFrame_Fail_same)

lemma sendFrame_sendByTemplate: "sendFrame job w (sendByTemplate env ws t job w)"
proof (cases "templateType t")
  case EMAIL
  have "sendFrame job w
     (andThen (senderProcess env EmailChannel (job\<lparr>owner := a\<rparr>) w)
        (\<lambda>j w'. Continue j (logEffect SaveWorkspace w')))" for a
    by (rule sendFrame_owner [where a = a], rule sendFrame_andThen, rule sendFrame_senderProcess)
       (simp add: sendFrame_log)
  with EMAIL show ?thesis
    by (simp add: sendByTemplate_def sendFrame_senderProcess sendFrame_Fail_same)
next
  case PUSH
  have "sendFrame job w (andThen (sendPush env AndroidChannel job w) (sendPush env IosChannel))"
    by (rule sendFrame_andThen, rule sendFrame_sendPush) (simp add: sendFrame_sendPush)
  with PUSH show ?thesis
    by (simp add: sendByTemplate_def sendFrame_sendPush sendFrame_Continue_same)
next
  case SMS
  then show ?thesis by (simp add: sendByTemplate_def sendFrame_senderProcess)
next
  case WEBHOOK
  then show ?thesis
    by (cases "webhookData t")
       (simp_all add: sendByTemplate_def sendFrame_Continue_same sendFrame_log)
next
  case SLACK
  then show ?thesis by (simp add: sendByTemplate_def sendFrame_Continue_same)
next
  case FIREBASE
  then show ?thesis by (simp add: sendByTemplate_def sendFrame_Continue_same)
qed

lemma realSend_Continue:
  assumes "realSend env tpl job w = Continue j w2"
  shows "messageSent (location j) \<and> step j = step job \<and> customer j = customer job
     \<and> minuteSends w2 = minuteSends w + 1
     \<and> customersMessaged w2 = customersMessaged w + (if messageSent (location job) then 0 else 1)
     \<and> (\<exists>pre. effects w2 = effects w @ pre @ [MinuteIncrement] \<and> sendOnly pre)"
proof -
  from assms obtain ws t where ws: "workspace (owner job) = Some ws" and t: "tpl = Some t"
    by (cases "workspace (owner job)"; cases tpl) (simp_all add: realSend_def)
  with assms have a: "andThen (sendByTemplate env ws t job w) afterSend = Continue j w2"
    by (simp add: realSend_def)
  then obtain j1 w1 where
    s: "sendByTemplate env ws t job w = Continue j1 w1" and a: "afterSend j1 w1 = Continue j w2"
    by (cases "sendByTemplate env ws t job w") (simp_all add: andThen_def)
  from a have j: "j = j1\<lparr>location := (location j1)\<lparr>messageSent := True\<rparr>\<rparr>"
    and w: "w2 = rateLimitByMinuteIncrement (creditCustomerMessaged (location j1) w1)"
    by (simp_all add: afterSend_def)
  from sendFrame_sendByTemplate [of job w env ws t] s
  have "sendFrame job w (Continue j1 w1)" by simp
  then obtain pre where
    f: "step j1 = step job" "customer j1 = customer job"
       "minuteSends w1 = minuteSends w" "customersMessaged w1 = customersMessaged w"
       "effects w1 = effects w @ pre" "sendOnly pre" "location j1 = location job"
    by (auto simp: sendFrame_def)
  have "effects w2 = effects w @ pre @ [MinuteIncrement]"
    using f
    by (simp add: w rateLimitByMinuteIncrement_def creditCustomerMessaged_def logEffect_def)
  with f(6) have "\<exists>pre. effects w2 = effects w @ pre @ [MinuteIncrement] \<and> sendOnly pre"
    by blast
  with f show ?thesis
    by (simp add: j w rateLimitByMinuteIncrement_def creditCustomerMessaged_def logEffect_def)
qed


lemma process_via_gate:
  assumes "sendGate env job w = Inr (d, rq, tpl, w1)"
  shows "process env job w =
     (case handleSendType env d rq tpl job w1 of
        Continue j w2 \<Rightarrow> dispatchNext env j w2
      | Stop j w2 \<Rightarrow> (Returned, j, w2)
      | Fail f j w2 \<Rightarrow> (Threw f, j, w2))"
  using assms by (simp add: process_def)



lemma mockSend_Some:
  assumes "workspace (owner job) = Some ws"
  shows "mockSend env job w =
     Continue (job\<lparr>location := (location job)\<lparr>messageSent := True\<rparr>\<rparr>)
       (rateLimitByMinuteIncrement
          (creditCustomerMessaged (location job)
             (logEffect (TrackerEvent ''sent'' (stepId (step job)) (customerId (customer job)))
                (mockPing env w))))"
  using assms by (simp add: mockSend_def trackerEvent_def andThen_def afterSend_def)

lemma mockSend_None:
  assumes "workspace (owner job) = None"
  shows "mockSend env job w = Fail TypeError job (mockPing env w)"
  using assms by (simp add: mockSend_def trackerEvent_def andThen_def)







lemma dispatchNext_None:
  assumes "steps env (destination (step job)) = None"
  shows "dispatchNext env job w = (Returned, job, logEffect (Unlock (stepId (step job))) w)"
  using assms by (simp add: dispatchNext_def)

lemma dispatchNext_timer:
  assumes "steps env (destination (step job)) = Some ns" and "timerStep (stepType ns)"
  shows "dispatchNext env job w = (Returned, job, logEffect (Unlock (stepId ns)) w)"
  using assms by (auto simp: dispatchNext_def timerStep_def)

lemma dispatchNext_reserved:
  assumes "steps env (destination (step job)) = Some ns" and "reservedStep (stepType ns)"
  shows "dispatchNext env job w = (Threw NotImplemented, job, w)"
  using assms by (auto simp: dispatchNext_def reservedStep_def processorMap_def)

lemma dispatchNext_enqueue:
  assumes "steps env (destination (step job)) = Some ns"
    and "\<not> timerStep (stepType ns)" and "\<not> reservedStep (stepType ns)"
  shows "\<exists>q. stepQueue (stepType ns) = Some q
    \<and> dispatchNext env job w =
        (Returned, job,
         logEffect (QueueAdd q (stepType ns)
                     \<lparr>step = ns, owner = owner job, journey = journey job,
                      customer = customer job, location = location job,
                      session = session job, event = event job, branch = None\<rparr>) w)"
  using assms
  by (cases "stepType ns")
     (auto simp: dispatchNext_def timerStep_def reservedStep_def processorMap_def
        nextJobFor_def)

lemma quietHoursCheck_workspace:
  assumes "quietHoursCheck env job = Inr (d, rq)" and "d \<noteq> SEND"
  shows "\<exists>ws. workspace (owner job) = Some ws"
proof (cases "journeySettings (journey job)")
  case None
  with assms show ?thesis by (simp add: quietHoursCheck_def)
next
  case (Some js)
  show ?thesis
  proof (cases "quietHours js")
    case None
    with assms Some show ?thesis by (simp add: quietHoursCheck_def)
  next
    case (Some qh)
    with assms \<open>journeySettings (journey job) = Some js\<close> show ?thesis
      by (cases "workspace (owner job)") (simp_all add: quietHoursCheck_def split: if_splits)
  qed
qed

text \<open>
  C6, as the spec states it, fails: on a \<open>QUIET_ABORT\<close> outcome the customer is not
  always advanced to the destination. Where the destination is a step of the reserved
  type \<open>AB_TEST\<close>, the run records the event \<open>aborted\<close> and ends in the fault ``not
  implemented'': no job is enqueued and the lock is not released.
\<close>

theorem quiet_abort_effects_counterexample:
  "sendGate (exEnv 84600000 AB_TEST None) (exJob (Some (quietSettings (Some Abort))))
       (exWorld 0 0)
     = Inr (QUIET_ABORT, Some 108000000, Some exTemplate, exWorld 0 0)
   \<and> steps (exEnv 84600000 AB_TEST None)
        (destination (step (exJob (Some (quietSettings (Some Abort))))))
     = Some (exNextStep AB_TEST)
   \<and> process (exEnv 84600000 AB_TEST None) (exJob (Some (quietSettings (Some Abort))))
        (exWorld 0 0)
     = (Threw NotImplemented, exJob (Some (quietSettings (Some Abort))),
        \<lparr>minuteSends = 0, customersMessaged = 0,
         effects = [TrackerEvent ''aborted'' ''s1'' ''c1'']\<rparr>)"
  by (simp add: gate_defs time_defs process_defs example_defs)

text \<open>
  C6, amended. On a \<open>QUIET_ABORT\<close> outcome the run records the synthetic event
  \<open>aborted\<close>, sends nothing, leaves the job (so \<open>messageSent\<close>) and both counters as they
  were, and still resolves the step's destination, as after a send (abort is not a hold):
  a destination of an implemented type other than the timer types is advanced to, the job
  of that step (the same owner, journey, customer, location, session and event) being
  added to the queue of its type with the lock kept; at a timer step the customer is
  parked, the lock being released at that step; a destination of a reserved type ends the
  run in the fault ``not implemented''; a destination that cannot be resolved releases
  the lock at the current step.
\<close>

theorem quiet_abort_effects:
  assumes "sendGate env job w = Inr (QUIET_ABORT, rq, tpl, w1)"
    and "process env job w = (st, j', w')"
  shows "j' = job \<and> minuteSends w' = minuteSends w \<and> customersMessaged w' = customersMessaged w
    \<and> (\<exists>post. effects w' = effects w
            @ TrackerEvent ''aborted'' (stepId (step job)) (customerId (customer job)) # post
          \<and> filter isSendEffect post = [])
    \<and> (steps env (destination (step job)) = None \<longrightarrow> st = Returned
          \<and> effects w' = effects w
               @ [TrackerEvent ''aborted'' (stepId (step job)) (customerId (customer job)),
                  Unlock (stepId (step job))])
    \<and> (\<forall>ns. steps env (destination (step job)) = Some ns \<longrightarrow>
          (timerStep (stepType ns) \<longrightarrow> st = Returned
             \<and> effects w' = effects w
                 @ [TrackerEvent ''aborted'' (stepId (step job)) (customerId (customer job)),
                    Unlock (stepId ns)])
          \<and> (reservedStep (stepType ns) \<longrightarrow> st = Threw NotImplemented
             \<and> effects w' = effects w
                 @ [TrackerEvent ''aborted'' (stepId (step job)) (customerId (customer job))])
          \<and> (\<not> timerStep (stepType ns) \<and> \<not> reservedStep (stepType ns) \<longrightarrow> st = Returned
             \<and> (\<exists>q. stepQueue (stepType ns) = Some q
                  \<and> effects w' = effects w
                 @ [TrackerEvent ''aborted'' (stepId (step job)) (customerId (customer job)),
                    QueueAdd q (stepType ns)
                     \<lparr>step = ns, owner = owner job, journey = journey job,
                      customer = customer job, location = location job,
                      session = session job, event = event job, branch = None\<rparr>])))"
proof -
  let ?a = "TrackerEvent ''aborted'' (stepId (step job)) (customerId (customer job))"
  from sendGate_quiet_inv [OF assms(1)]
  have q: "quietHoursCheck env job = Inr (QUIET_ABORT, rq)" and w1: "w1 = w" by simp_all
  from quietHoursCheck_workspace [OF q] obtain ws where ws: "workspace (owner job) = Some ws"
    by auto
  have d: "dispatchNext env job (logEffect ?a w) = (st, j', w')"
    using assms ws by (simp add: process_via_gate handleSendType_def trackerEvent_def w1)
  from dispatchNext_frame [OF d] obtain post where
    f: "j' = job" "minuteSends w' = minuteSends w" "customersMessaged w' = customersMessaged w"
       "effects w' = effects w @ ?a # post" "filter isSendEffect post = []"
    by (auto simp: counters_logEffect)
  have n: "steps env (destination (step job)) = None \<longrightarrow> st = Returned
      \<and> effects w' = effects w @ [?a, Unlock (stepId (step job))]"
    using dispatchNext_None [of env job "logEffect ?a w"] d by (auto simp: counters_logEffect)
  have r: "timerStep (stepType ns) \<longrightarrow> st = Returned \<and> effects w' = effects w @ [?a, Unlock (stepId ns)]"
    if "steps env (destination (step job)) = Some ns" for ns
    using dispatchNext_timer [OF that, of "logEffect ?a w"] d by (auto simp: counters_logEffect)
  have s: "reservedStep (stepType ns) \<longrightarrow> st = Threw NotImplemented
      \<and> effects w' = effects w @ [?a]"
    if "steps env (destination (step job)) = Some ns" for ns
    using dispatchNext_reserved [OF that, of "logEffect ?a w"] d by (auto simp: counters_logEffect)
  have e: "\<not> timerStep (stepType ns) \<and> \<not> reservedStep (stepType ns) \<longrightarrow> st = Returned
      \<and> (\<exists>q. stepQueue (stepType ns) = Some q
           \<and> effects w' = effects w @ [?a, QueueAdd q (stepType ns)
                     \<lparr>step = ns, owner = owner job, journey = journey job,
                      customer = customer job, location = location job,
                      session = session job, event = event job, branch = None\<rparr>])"
    if "steps env (destination (step job)) = Some ns" for ns
    using dispatchNext_enqueue [OF that, of "logEffect ?a w"] d by (auto simp: counters_logEffect)
  from f(4,5) have p: "\<exists>post. effects w' = effects w @ ?a # post \<and> filter isSendEffect post = []"
    by blast
  from f(1,2,3) p n r s e show ?thesis by blast
qed

theorem quiet_abort_effects_witness:
  "sendGate (exEnv 84600000 EXIT None) (exJob (Some (quietSettings (Some Abort)))) (exWorld 0 0)
     = Inr (QUIET_ABORT, Some 108000000, Some exTemplate, exWorld 0 0)
   \<and> process (exEnv 84600000 EXIT None) (exJob (Some (quietSettings (Some Abort)))) (exWorld 0 0)
     = (Returned, exJob (Some (quietSettings (Some Abort))),
        \<lparr>minuteSends = 0, customersMessaged = 0,
         effects = [TrackerEvent ''aborted'' ''s1'' ''c1'',
                    QueueAdd ExitQueue EXIT
                      ((exJob (Some (quietSettings (Some Abort))))\<lparr>step := exNextStep EXIT\<rparr>)]\<rparr>)"
proof -
  let ?J = "exJob (Some (quietSettings (Some Abort)))"
  let ?E = "exEnv 84600000 EXIT None"
  have g: "sendGate ?E ?J (exWorld 0 0)
     = Inr (QUIET_ABORT, Some 108000000, Some exTemplate, exWorld 0 0)"
    by (simp add: gate_defs time_defs example_defs)
  obtain st j' w' where p: "process ?E ?J (exWorld 0 0) = (st, j', w')"
    by (metis prod_cases3)
  have n: "steps ?E (destination (step ?J)) = Some (exNextStep EXIT)"
    by (simp add: example_defs)
  have t: "\<not> timerStep (stepType (exNextStep EXIT)) \<and> \<not> reservedStep (stepType (exNextStep EXIT))"
    by (simp add: exNextStep_def timerStep_def reservedStep_def)
  have k: "stepType (exNextStep EXIT) = EXIT" by (simp add: exNextStep_def)
  note a = quiet_abort_effects [OF g p]
  from a have j: "j' = ?J" and m: "minuteSends w' = minuteSends (exWorld 0 0)"
    and c: "customersMessaged w' = customersMessaged (exWorld 0 0)"
    by blast+
  from a n t have "st = Returned
      \<and> (\<exists>q. stepQueue (stepType (exNextStep EXIT)) = Some q
           \<and> effects w' = effects (exWorld 0 0)
               @ [TrackerEvent ''aborted'' (stepId (step ?J)) (customerId (customer ?J)),
                  QueueAdd q (stepType (exNextStep EXIT))
                    \<lparr>step = exNextStep EXIT, owner = owner ?J, journey = journey ?J,
                      customer = customer ?J, location = location ?J,
                      session = session ?J, event = event ?J, branch = None\<rparr>])"
    by blast
  then have s: "st = Returned" and e: "effects w' =
      [TrackerEvent ''aborted'' ''s1'' ''c1'',
       QueueAdd ExitQueue EXIT (?J\<lparr>step := exNextStep EXIT\<rparr>)]"
    by (auto simp: k exWorld_def exJob_def exStep_def)
  have "w' = \<lparr>minuteSends = 0, customersMessaged = 0,
         effects = [TrackerEvent ''aborted'' ''s1'' ''c1'',
                    QueueAdd ExitQueue EXIT (?J\<lparr>step := exNextStep EXIT\<rparr>)]\<rparr>"
    using m c e by (cases w') (simp add: exWorld_def)
  with g p j s show ?thesis by simp
qed

text \<open>
  C7. On a \<open>QUIET_REQUEUE\<close> or \<open>LIMIT_REQUEUE\<close> outcome \<open>requeueTime\<close> is set, and the run
  does exactly two things after the gate: it requeues the same step for the same customer
  at \<open>requeueTime\<close> and releases the lock; then it returns. The job (so \<open>messageSent\<close>)
  and the counters are unchanged; nothing is sent, no next step is resolved and no job is
  added to a step queue.
\<close>

theorem requeue_effects:
  assumes "sendGate env job w = Inr (d, rq, tpl, w1)"
    and "d = QUIET_REQUEUE \<or> d = LIMIT_REQUEUE"
  shows "\<exists>t. rq = Some t
    \<and> process env job w =
        (Returned, job,
         w1\<lparr>effects := effects w1
               @ [RequeueMessage (stepId (step job)) (customerId (customer job)) (Some t),
                  Unlock (stepId (step job))]\<rparr>)
    \<and> minuteSends w1 = minuteSends w \<and> customersMessaged w1 = customersMessaged w"
proof -
  from sendGate_requeue_time [OF assms] obtain t where t: "rq = Some t" by blast
  have "process env job w =
        (Returned, job,
         w1\<lparr>effects := effects w1
               @ [RequeueMessage (stepId (step job)) (customerId (customer job)) (Some t),
                  Unlock (stepId (step job))]\<rparr>)"
    using assms(2) t
    by (auto simp: process_via_gate [OF assms(1)] handleSendType_def requeue_def logEffect_def)
  with t sendGate_frame [OF assms(1)] show ?thesis by simp
qed

theorem requeue_effects_witness:
  "process (exEnv 30000 EXIT None) (exJob (Some (limitSettings noLimit capOne))) (exWorld 1 0)
     = (Returned, exJob (Some (limitSettings noLimit capOne)),
        \<lparr>minuteSends = 1, customersMessaged = 0,
         effects = [CheckMinute, RequeueMessage ''s1'' ''c1'' (Some 90000), Unlock ''s1'']\<rparr>)"
proof -
  let ?J = "exJob (Some (limitSettings noLimit capOne))"
  have g: "sendGate (exEnv 30000 EXIT None) ?J (exWorld 1 0)
     = Inr (LIMIT_REQUEUE, Some 90000, Some exTemplate,
            \<lparr>minuteSends = 1, customersMessaged = 0, effects = [CheckMinute]\<rparr>)"
    by (simp add: gate_defs time_defs example_defs)
  have s: "stepId (step ?J) = ''s1''" "customerId (customer ?J) = ''c1''"
    by (simp_all add: exJob_def exStep_def)
  show ?thesis
    using requeue_effects [OF g] by (simp add: s)
qed
lemma handleSendType_Continue:
  assumes "handleSendType env d rq tpl job w1 = Continue j w2"
  shows "(d = SEND \<or> d = MOCK_SEND \<or> d = QUIET_ABORT) \<and> step j = step job"
proof (cases d)
  case SEND
  with assms realSend_Continue [of env tpl job w1 j w2] show ?thesis
    by (simp add: handleSendType_def)
next
  case QUIET_ABORT
  with assms show ?thesis
    by (cases "workspace (owner job)") (auto simp: handleSendType_def trackerEvent_def)
next
  case MOCK_SEND
  with assms show ?thesis
    by (cases "workspace (owner job)")
       (auto simp: handleSendType_def mockSend_None mockSend_Some)
qed (insert assms, simp_all add: handleSendType_def holdAtCurrent_def requeue_def)

text \<open>
  C8, as the spec states it, fails: after a completed send, a next step of the reserved
  type \<open>AB_TEST\<close> (neither \<open>TIME_DELAY\<close>, \<open>TIME_WINDOW\<close> nor \<open>WAIT_UNTIL_BRANCH\<close>) is not
  enqueued; the run ends in the fault ``not implemented'', with no job added and the lock
  not released.
\<close>

theorem next_step_dispatch_counterexample:
  "process (exEnv 30000 AB_TEST None) (exJob None) (exWorld 0 0)
     = (Threw NotImplemented, (exJob None)\<lparr>location := \<lparr>messageSent = True\<rparr>\<rparr>,
        \<lparr>minuteSends = 1, customersMessaged = 1,
         effects = [SenderProcess EmailChannel, DeliveryStatus EmailChannel, MinuteIncrement]\<rparr>)
   \<and> steps (exEnv 30000 AB_TEST None) (destination (step (exJob None)))
        = Some (exNextStep AB_TEST)
   \<and> stepType (exNextStep AB_TEST) = AB_TEST"
  by (simp add: gate_defs process_defs example_defs)

text \<open>
  C8, amended. After a completed send attempt (the handling of \<open>SEND\<close>, \<open>MOCK_SEND\<close> or
  \<open>QUIET_ABORT\<close> fell through with job \<open>j\<close> and world \<open>w2\<close>): where the destination
  cannot be resolved the run releases the lock at the current step and enqueues nothing;
  where the next step is a \<open>TIME_DELAY\<close>, \<open>TIME_WINDOW\<close> or \<open>WAIT_UNTIL_BRANCH\<close> step it
  releases the lock at that step and enqueues nothing; where it is of a reserved type
  (\<open>AB_TEST\<close>, \<open>RANDOM_COHORT_BRANCH\<close>, \<open>TRACKER\<close>, \<open>ATTRIBUTE_BRANCH\<close>) the run throws
  ``not implemented'' and neither enqueues nor releases; for every other type it adds the
  job of the next step (that step with the owner, journey, customer, location, session
  and event of \<open>j\<close>) to the queue of that type and does not release the lock.
\<close>

theorem next_step_dispatch:
  assumes "sendGate env job w = Inr (d, rq, tpl, w1)"
    and "handleSendType env d rq tpl job w1 = Continue j w2"
  shows "(d = SEND \<or> d = MOCK_SEND \<or> d = QUIET_ABORT)
    \<and> (steps env (destination (step job)) = None \<longrightarrow>
          process env job w = (Returned, j, logEffect (Unlock (stepId (step job))) w2))
    \<and> (\<forall>ns. steps env (destination (step job)) = Some ns \<longrightarrow>
          (timerStep (stepType ns) \<longrightarrow>
             process env job w = (Returned, j, logEffect (Unlock (stepId ns)) w2))
          \<and> (reservedStep (stepType ns) \<longrightarrow>
             process env job w = (Threw NotImplemented, j, w2))
          \<and> (\<not> timerStep (stepType ns) \<and> \<not> reservedStep (stepType ns) \<longrightarrow>
             (\<exists>q. stepQueue (stepType ns) = Some q
                \<and> process env job w =
                   (Returned, j,
                    logEffect (QueueAdd q (stepType ns)
                     \<lparr>step = ns, owner = owner j, journey = journey j,
                      customer = customer j, location = location j,
                      session = session j, event = event j, branch = None\<rparr>) w2))))"
proof -
  from handleSendType_Continue [OF assms(2)]
  have d: "d = SEND \<or> d = MOCK_SEND \<or> d = QUIET_ABORT" and s: "step j = step job"
    by simp_all
  have p: "process env job w = dispatchNext env j w2"
    using assms by (simp add: process_via_gate)
  have n: "steps env (destination (step job)) = None \<longrightarrow>
          process env job w = (Returned, j, logEffect (Unlock (stepId (step job))) w2)"
    using dispatchNext_None [of env j w2] by (simp add: p s)
  have t: "timerStep (stepType ns) \<longrightarrow>
             process env job w = (Returned, j, logEffect (Unlock (stepId ns)) w2)"
    if "steps env (destination (step job)) = Some ns" for ns
    using dispatchNext_timer [of env j ns w2] that by (simp add: p s)
  have r: "reservedStep (stepType ns) \<longrightarrow> process env job w = (Threw NotImplemented, j, w2)"
    if "steps env (destination (step job)) = Some ns" for ns
    using dispatchNext_reserved [of env j ns w2] that by (simp add: p s)
  have e: "\<not> timerStep (stepType ns) \<and> \<not> reservedStep (stepType ns) \<longrightarrow>
             (\<exists>q. stepQueue (stepType ns) = Some q
                \<and> process env job w =
                   (Returned, j,
                    logEffect (QueueAdd q (stepType ns)
                     \<lparr>step = ns, owner = owner j, journey = journey j,
                      customer = customer j, location = location j,
                      session = session j, event = event j, branch = None\<rparr>) w2))"
    if "steps env (destination (step job)) = Some ns" for ns
    using dispatchNext_enqueue [of env j ns w2] that by (simp add: p s)
  from d n t r e show ?thesis by blast
qed

theorem next_step_dispatch_witness:
  "process (exEnv 30000 EXIT None) (exJob None) (exWorld 0 0)
     = (Returned, (exJob None)\<lparr>location := \<lparr>messageSent = True\<rparr>\<rparr>,
        \<lparr>minuteSends = 1, customersMessaged = 1,
         effects = [SenderProcess EmailChannel, DeliveryStatus EmailChannel, MinuteIncrement,
                    QueueAdd ExitQueue EXIT
                      ((exJob None)\<lparr>step := exNextStep EXIT,
                                    location := \<lparr>messageSent = True\<rparr>\<rparr>)]\<rparr>)
   \<and> process (exEnv 30000 TIME_DELAY (Some ''true'')) (exJob None) (exWorld 0 0)
     = (Returned, (exJob None)\<lparr>location := \<lparr>messageSent = True\<rparr>\<rparr>,
        \<lparr>minuteSends = 1, customersMessaged = 1,
         effects = [TrackerEvent ''sent'' ''s1'' ''c1'', MinuteIncrement, Unlock ''s2'']\<rparr>)"
proof -
  let ?j = "(exJob None)\<lparr>location := \<lparr>messageSent = True\<rparr>\<rparr>"
  let ?E1 = "exEnv 30000 EXIT None"
  let ?v2 = "\<lparr>minuteSends = 1, customersMessaged = 1,
         effects = [SenderProcess EmailChannel, DeliveryStatus EmailChannel, MinuteIncrement]\<rparr>"
  have g1: "sendGate ?E1 (exJob None) (exWorld 0 0)
     = Inr (SEND, None, Some exTemplate, exWorld 0 0)"
    by (simp add: gate_defs example_defs)
  have h1: "handleSendType ?E1 SEND None (Some exTemplate) (exJob None) (exWorld 0 0)
     = Continue ?j ?v2"
    by (simp add: process_defs logEffect_def example_defs)
  have n1: "steps ?E1 (destination (step (exJob None))) = Some (exNextStep EXIT)"
    by (simp add: example_defs)
  have t1: "\<not> timerStep (stepType (exNextStep EXIT)) \<and> \<not> reservedStep (stepType (exNextStep EXIT))"
    by (simp add: exNextStep_def timerStep_def reservedStep_def)
  have k1: "stepType (exNextStep EXIT) = EXIT" by (simp add: exNextStep_def)
  from next_step_dispatch [OF g1 h1] n1 t1
  have "\<exists>q. stepQueue (stepType (exNextStep EXIT)) = Some q
      \<and> process ?E1 (exJob None) (exWorld 0 0) =
          (Returned, ?j, logEffect (QueueAdd q (stepType (exNextStep EXIT))
                     \<lparr>step = exNextStep EXIT, owner = owner ?j, journey = journey ?j,
                      customer = customer ?j, location = location ?j,
                      session = session ?j, event = event ?j, branch = None\<rparr>) ?v2)"
    by blast
  then have a: "process ?E1 (exJob None) (exWorld 0 0)
     = (Returned, ?j,
        \<lparr>minuteSends = 1, customersMessaged = 1,
         effects = [SenderProcess EmailChannel, DeliveryStatus EmailChannel, MinuteIncrement,
                    QueueAdd ExitQueue EXIT
                      ((exJob None)\<lparr>step := exNextStep EXIT,
                                    location := \<lparr>messageSent = True\<rparr>\<rparr>)]\<rparr>)"
    by (auto simp: k1 logEffect_def exJob_def)
  let ?E2 = "exEnv 30000 TIME_DELAY (Some ''true'')"
  let ?w2 = "\<lparr>minuteSends = 1, customersMessaged = 1,
         effects = [TrackerEvent ''sent'' ''s1'' ''c1'', MinuteIncrement]\<rparr>"
  have g2: "sendGate ?E2 (exJob None) (exWorld 0 0)
     = Inr (MOCK_SEND, None, Some exTemplate, exWorld 0 0)"
    by (simp add: gate_defs example_defs)
  have h2: "handleSendType ?E2 MOCK_SEND None (Some exTemplate) (exJob None) (exWorld 0 0)
     = Continue ?j ?w2"
    by (simp add: process_defs logEffect_def example_defs)
  have n2: "steps ?E2 (destination (step (exJob None))) = Some (exNextStep TIME_DELAY)"
    by (simp add: example_defs)
  have t2: "timerStep (stepType (exNextStep TIME_DELAY))"
    by (simp add: exNextStep_def timerStep_def)
  have u: "logEffect (Unlock (stepId (exNextStep TIME_DELAY))) ?w2
     = \<lparr>minuteSends = 1, customersMessaged = 1,
         effects = [TrackerEvent ''sent'' ''s1'' ''c1'', MinuteIncrement, Unlock ''s2'']\<rparr>"
    by (simp add: logEffect_def exNextStep_def)
  from next_step_dispatch [OF g2 h2] n2 t2
  have "process ?E2 (exJob None) (exWorld 0 0)
     = (Returned, ?j, logEffect (Unlock (stepId (exNextStep TIME_DELAY))) ?w2)"
    by blast
  then have b: "process ?E2 (exJob None) (exWorld 0 0)
     = (Returned, ?j, \<lparr>minuteSends = 1, customersMessaged = 1,
         effects = [TrackerEvent ''sent'' ''s1'' ''c1'', MinuteIncrement, Unlock ''s2'']\<rparr>)"
    by (simp only: u)
  from a b show ?thesis by (rule conjI)
qed

text \<open>
  C9, as the spec states it, fails: with the free-tier quota exhausted the exception
  leaves \<open>process\<close> at once. The run has no effect at all, while the resolution of the
  next step, had it run, would have enqueued the job of the destination.
\<close>

theorem quota_fault_counterexample:
  "process (exEnv 30000 EXIT None) (freeJob 0) (exWorld 0 0)
     = (Threw PaymentRequired, freeJob 0, exWorld 0 0)
   \<and> effects (exWorld 0 0) = []
   \<and> dispatchNext (exEnv 30000 EXIT None) (freeJob 0) (exWorld 0 0)
     = (Returned, freeJob 0,
        \<lparr>minuteSends = 0, customersMessaged = 0,
         effects = [QueueAdd ExitQueue EXIT (nextJobFor (freeJob 0) (exNextStep EXIT))]\<rparr>)"
  by (simp add: gate_defs process_defs example_defs)

text \<open>
  C9, amended. When the gate decides \<open>SEND\<close> for an email template and the workspace
  uses the free-tier provider with no free email left, the send attempt fails with the
  fault ``payment required'' and processing stops there: the fault leaves the handler,
  nothing is sent, no rate-limit increment is credited, no next step is resolved, no job
  is enqueued and the lock is not released (the world is as the checks of the gate left
  it).
\<close>

theorem quota_fault:
  assumes "sendGate env job w = Inr (SEND, rq, tpl, w1)"
    and "workspace (owner job) = Some ws" and "tpl = Some t" and "templateType t = EMAIL"
    and "emailProvider ws = ''free3''" and "freeEmailsCount ws = 0"
  shows "process env job w = (Threw PaymentRequired, job, w1)
    \<and> minuteSends w1 = minuteSends w \<and> customersMessaged w1 = customersMessaged w
    \<and> (\<exists>cs. effects w1 = effects w @ cs \<and> set cs \<subseteq> {CheckCustomersMessaged, CheckMinute})"
proof -
  have "realSend env tpl job w1 = Fail PaymentRequired job w1"
    using assms(2-6) by (simp add: realSend_def sendByTemplate_def andThen_def)
  then have "process env job w = (Threw PaymentRequired, job, w1)"
    by (simp add: process_via_gate [OF assms(1)] handleSendType_def)
  with sendGate_frame [OF assms(1)] show ?thesis by simp
qed

theorem quota_fault_witness:
  "sendGate (exEnv 30000 EXIT None) (freeJob 0) (exWorld 0 0)
     = Inr (SEND, None, Some exTemplate, exWorld 0 0)
   \<and> process (exEnv 30000 EXIT None) (freeJob 0) (exWorld 0 0)
     = (Threw PaymentRequired, freeJob 0, exWorld 0 0)"
proof -
  let ?ws = "exWorkspace\<lparr>emailProvider := ''free3'', freeEmailsCount := 0\<rparr>"
  have g: "sendGate (exEnv 30000 EXIT None) (freeJob 0) (exWorld 0 0)
     = Inr (SEND, None, Some exTemplate, exWorld 0 0)"
    by (simp add: gate_defs example_defs)
  have h: "workspace (owner (freeJob 0)) = Some ?ws" by (simp add: freeJob_def)
  have e: "templateType exTemplate = EMAIL" by (simp add: exTemplate_def)
  have f: "emailProvider ?ws = ''free3''" "freeEmailsCount ?ws = 0" by simp_all
  from quota_fault [OF g h refl e f] g show ?thesis by simp
qed





end
